theory Spec2Isabelle
  imports Main
begin

section \<open>Ingestion jobs of the SQL data extractor (chat-interface.tsx)\<close>

text \<open>
  The extractor keeps three pieces of React state: the job list, the active job and the
  list of extraction steps. Every state setter of the source is used with a functional
  updater, so each call is modelled as a function from the previous state to the next.
\<close>

datatype job_status = Queued | Extracting | Inserting | Completed | Failed

record ExtractionJob =
  id_job :: string
  folderName :: string
  filesCount :: nat
  status :: job_status
  progress :: nat
  rowsExtracted :: nat
  rowsInserted :: nat
  tablesAffected :: "string list"
  startedAt :: string
  completedAt :: "string option"
  error :: "string option"

text \<open>
  \<^verbatim>\<open>Partial<ExtractionJob>\<close>: every field may be present or absent. Spreading it over a
  job overwrites exactly the fields that are present.
\<close>

record job_updates =
  upd_id :: "string option"
  upd_folderName :: "string option"
  upd_filesCount :: "nat option"
  upd_status :: "job_status option"
  upd_progress :: "nat option"
  upd_rowsExtracted :: "nat option"
  upd_rowsInserted :: "nat option"
  upd_tablesAffected :: "string list option"
  upd_startedAt :: "string option"
  upd_completedAt :: "string option"
  upd_error :: "string option"

definition no_updates :: job_updates where
  "no_updates = \<lparr>upd_id = None, upd_folderName = None, upd_filesCount = None,
     upd_status = None, upd_progress = None, upd_rowsExtracted = None,
     upd_rowsInserted = None, upd_tablesAffected = None, upd_startedAt = None,
     upd_completedAt = None, upd_error = None\<rparr>"

definition overwrite :: "'a option \<Rightarrow> 'a \<Rightarrow> 'a" where
  "overwrite u old = (case u of None \<Rightarrow> old | Some v \<Rightarrow> v)"

definition overwrite_opt :: "'a option \<Rightarrow> 'a option \<Rightarrow> 'a option" where
  "overwrite_opt u old = (case u of None \<Rightarrow> old | Some v \<Rightarrow> Some v)"

text \<open>\<^verbatim>\<open>{ ...job, ...updates }\<close>\<close>

definition spread_updates :: "ExtractionJob \<Rightarrow> job_updates \<Rightarrow> ExtractionJob" where
  "spread_updates job u =
     \<lparr>id_job = overwrite (upd_id u) (id_job job),
      folderName = overwrite (upd_folderName u) (folderName job),
      filesCount = overwrite (upd_filesCount u) (filesCount job),
      status = overwrite (upd_status u) (status job),
      progress = overwrite (upd_progress u) (progress job),
      rowsExtracted = overwrite (upd_rowsExtracted u) (rowsExtracted job),
      rowsInserted = overwrite (upd_rowsInserted u) (rowsInserted job),
      tablesAffected = overwrite (upd_tablesAffected u) (tablesAffected job),
      startedAt = overwrite (upd_startedAt u) (startedAt job),
      completedAt = overwrite_opt (upd_completedAt u) (completedAt job),
      error = overwrite_opt (upd_error u) (error job)\<rparr>"

text \<open>\<^verbatim>\<open>{ ...job, status, progress, ...updates }\<close>\<close>

definition updated_job ::
  "ExtractionJob \<Rightarrow> job_status \<Rightarrow> nat \<Rightarrow> job_updates \<Rightarrow> ExtractionJob" where
  "updated_job job st p u = spread_updates (job\<lparr>status := st, progress := p\<rparr>) u"

datatype step_status = Pending | Active | StepCompleted | StepError

record ExtractionStep =
  step_id :: string
  step_label :: string
  step_status :: step_status

record extractor_state =
  jobs :: "ExtractionJob list"
  activeJob :: "ExtractionJob option"
  extractionSteps :: "ExtractionStep list"

definition updateJobStatus ::
  "string \<Rightarrow> job_status \<Rightarrow> nat \<Rightarrow> job_updates \<Rightarrow> extractor_state \<Rightarrow> extractor_state" where
  "updateJobStatus jobId st p u s =
     s\<lparr>jobs := map (\<lambda>job. if id_job job = jobId then updated_job job st p u else job) (jobs s),
       activeJob := (case activeJob s of
                       None \<Rightarrow> None
                     | Some prev \<Rightarrow> if id_job prev = jobId then Some (updated_job prev st p u)
                                   else Some prev)\<rparr>"

text \<open>
  \<^verbatim>\<open>prev.map((step, idx) => ...)\<close> of \<^verbatim>\<open>updateStepStatus\<close>: the step at the index gets the
  status; marking a step completed also completes every step before it.
\<close>

definition updateStepStatus :: "nat \<Rightarrow> step_status \<Rightarrow> extractor_state \<Rightarrow> extractor_state" where
  "updateStepStatus stepIndex st s =
     s\<lparr>extractionSteps :=
         map (\<lambda>(idx, step).
                if idx = stepIndex then step\<lparr>step_status := st\<rparr>
                else if st = StepCompleted \<and> idx < stepIndex then step\<lparr>step_status := StepCompleted\<rparr>
                else step)
             (zip [0..<length (extractionSteps s)] (extractionSteps s))\<rparr>"


subsection \<open>Inputs of an extraction run\<close>

record File =
  file_name :: string
  webkitRelativePath :: string

text \<open>
  The values the run reads from the clock: the two \<^verbatim>\<open>Date.now()\<close> readings and the two
  \<^verbatim>\<open>new Date().toLocaleString()\<close> strings (start and end of the run).
\<close>

record clock =
  now_id :: nat
  now_folder :: nat
  started_string :: string
  finished_string :: string

text \<open>
  The body of the response of \<^verbatim>\<open>/api/sql/insert-uploaded\<close>, with the fields the source
  reads. The backend is not part of the sources; the element type of \<^verbatim>\<open>pq.values\<close> is
  left open.
\<close>

record 'v parsed_query =
  table_name :: string
  pq_values :: "'v list option"

record 'v file_result =
  success :: bool
  parsed_queries :: "'v parsed_query list option"

record 'v insert_response =
  data_success :: bool
  data_results :: "'v file_result list option"
  data_error :: "string option"
  successful_count :: nat

text \<open>What the \<^verbatim>\<open>catch\<close> block reads from a thrown value.\<close>

record thrown =
  response_data_error :: "string option"
  message :: string

text \<open>
  The outcome of the awaited request: the promise rejects; it resolves with a body of the
  expected shape; or it resolves with a body on which the processing of lines 278-293
  throws (a body that is not an object, a \<^verbatim>\<open>results\<close> that is not an array, ...).
\<close>

datatype 'v axios_result =
    Rejected thrown
  | Resolved "'v insert_response"
  | ResolvedMalformed thrown

text \<open>\<^verbatim>\<open>Number.prototype.toString\<close> on a natural number: its decimal digits.\<close>

definition digit_char :: "nat \<Rightarrow> char" where
  "digit_char d = char_of (of_char (CHR ''0'') + d)"

fun number_toString :: "nat \<Rightarrow> string" where
  "number_toString n =
     (if 10 \<le> n then number_toString (n div 10) @ [digit_char (n mod 10)]
      else [digit_char n])"

declare number_toString.simps [simp del]

text \<open>\<^verbatim>\<open>a || b\<close> on optional strings: the empty string and \<^verbatim>\<open>undefined\<close> are falsy.\<close>

definition or_else :: "string option \<Rightarrow> string \<Rightarrow> string" where
  "or_else a b = (case a of None \<Rightarrow> b | Some x \<Rightarrow> if x = [] then b else x)"

definition errorMessage :: "thrown \<Rightarrow> string" where
  "errorMessage e =
     or_else (response_data_error e) (or_else (Some (message e)) ''Unknown error occurred'')"

subsection \<open>Totals extracted from the response (lines 277-293)\<close>

record totals =
  totalRowsExtracted :: nat
  totalRowsInserted :: nat
  tablesSet :: "string list"

text \<open>A JavaScript \<^verbatim>\<open>Set\<close> keeps its elements in the order of their first insertion.\<close>

definition set_add :: "string \<Rightarrow> string list \<Rightarrow> string list" where
  "set_add x xs = (if x \<in> set xs then xs else xs @ [x])"

text \<open>\<^verbatim>\<open>pq.values?.length || 0\<close>\<close>

definition values_length :: "'v parsed_query \<Rightarrow> nat" where
  "values_length pq = (case pq_values pq of None \<Rightarrow> 0 | Some vs \<Rightarrow> length vs)"

definition count_query :: "'v parsed_query \<Rightarrow> totals \<Rightarrow> totals" where
  "count_query pq t =
     \<lparr>totalRowsExtracted = totalRowsExtracted t + values_length pq,
      totalRowsInserted = totalRowsInserted t + values_length pq,
      tablesSet = set_add (table_name pq) (tablesSet t)\<rparr>"

definition count_result :: "'v file_result \<Rightarrow> totals \<Rightarrow> totals" where
  "count_result r t =
     (case parsed_queries r of None \<Rightarrow> t | Some pqs \<Rightarrow> fold count_query pqs t)"

definition successfulResults :: "'v insert_response \<Rightarrow> 'v file_result list" where
  "successfulResults d =
     filter success (case data_results d of None \<Rightarrow> [] | Some rs \<Rightarrow> rs)"

definition extract_totals :: "'v insert_response \<Rightarrow> totals" where
  "extract_totals d =
     fold count_result (successfulResults d)
       \<lparr>totalRowsExtracted = 0, totalRowsInserted = 0, tablesSet = []\<rparr>"

subsection \<open>startExtraction\<close>

definition jobId_of :: "clock \<Rightarrow> string" where
  "jobId_of c = ''job-'' @ number_toString (now_id c)"

definition folderName_of :: "File list \<Rightarrow> clock \<Rightarrow> string" where
  "folderName_of files c =
     (case files of
        [] \<Rightarrow> ''upload_'' @ number_toString (now_folder c)
      | f # _ \<Rightarrow>
          if webkitRelativePath f \<noteq> []
          then takeWhile (\<lambda>ch. ch \<noteq> CHR ''/'') (webkitRelativePath f)
          else ''upload_'' @ number_toString (now_folder c))"

definition newJob :: "File list \<Rightarrow> clock \<Rightarrow> ExtractionJob" where
  "newJob files c =
     \<lparr>id_job = jobId_of c, folderName = folderName_of files c, filesCount = length files,
      status = Queued, progress = 0, rowsExtracted = 0, rowsInserted = 0,
      tablesAffected = [], startedAt = started_string c, completedAt = None, error = None\<rparr>"

definition initial_steps :: "ExtractionStep list" where
  "initial_steps =
     [\<lparr>step_id = ''scan'', step_label = ''Scanning files'', step_status = Pending\<rparr>,
      \<lparr>step_id = ''parse'', step_label = ''Parsing data structure'', step_status = Pending\<rparr>,
      \<lparr>step_id = ''validate'', step_label = ''Validating records'', step_status = Pending\<rparr>,
      \<lparr>step_id = ''transform'', step_label = ''Transforming data'', step_status = Pending\<rparr>,
      \<lparr>step_id = ''insert'', step_label = ''Inserting to database'', step_status = Pending\<rparr>,
      \<lparr>step_id = ''verify'', step_label = ''Verifying integrity'', step_status = Pending\<rparr>]"

text \<open>Lines 220-232: the new job goes to the front of the list and becomes the active job.\<close>

definition begin_extraction :: "ExtractionJob \<Rightarrow> extractor_state \<Rightarrow> extractor_state" where
  "begin_extraction nj s =
     s\<lparr>jobs := nj # jobs s, activeJob := Some nj, extractionSteps := initial_steps\<rparr>"

fun findIndex :: "('a \<Rightarrow> bool) \<Rightarrow> 'a list \<Rightarrow> nat option" where
  "findIndex P [] = None"
| "findIndex P (x # xs) = (if P x then Some 0 else map_option Suc (findIndex P xs))"

text \<open>The \<^verbatim>\<open>catch\<close> block's first update: the step that is active becomes the error step.\<close>

definition markActiveStepError :: "extractor_state \<Rightarrow> extractor_state" where
  "markActiveStepError s =
     s\<lparr>extractionSteps :=
         map (\<lambda>(idx, step).
                if Some idx = findIndex (\<lambda>x. step_status x = Active) (extractionSteps s)
                then step\<lparr>step_status := StepError\<rparr> else step)
             (zip [0..<length (extractionSteps s)] (extractionSteps s))\<rparr>"

text \<open>The state updates of a run, in the order in which the source issues them.\<close>

datatype action =
    StepStatus nat step_status
  | JobStatus job_status nat job_updates
  | MarkActiveStepError

fun run_action :: "string \<Rightarrow> action \<Rightarrow> extractor_state \<Rightarrow> extractor_state" where
  "run_action jobId (StepStatus i st) s = updateStepStatus i st s"
| "run_action jobId (JobStatus st p u) s = updateJobStatus jobId st p u s"
| "run_action jobId MarkActiveStepError s = markActiveStepError s"

text \<open>Lines 235-261, up to the awaited request.\<close>

definition actions_before_request :: "action list" where
  "actions_before_request =
     [StepStatus 0 Active, JobStatus Extracting 10 no_updates,
      StepStatus 0 StepCompleted, StepStatus 1 Active, JobStatus Extracting 25 no_updates,
      StepStatus 1 StepCompleted, StepStatus 2 Active, JobStatus Extracting 40 no_updates,
      StepStatus 2 StepCompleted, StepStatus 3 Active, JobStatus Extracting 60 no_updates,
      StepStatus 3 StepCompleted, StepStatus 4 Active, JobStatus Inserting 75 no_updates]"

text \<open>Lines 321-337, the \<^verbatim>\<open>catch\<close> block.\<close>

definition catch_actions :: "thrown \<Rightarrow> clock \<Rightarrow> action list" where
  "catch_actions e c =
     [MarkActiveStepError,
      JobStatus Failed 100
        (no_updates\<lparr>upd_error := Some (errorMessage e),
                    upd_completedAt := Some (finished_string c)\<rparr>)]"

text \<open>Lines 272-275.\<close>

definition actions_on_response :: "action list" where
  "actions_on_response =
     [StepStatus 4 StepCompleted, StepStatus 5 Active, JobStatus Inserting 90 no_updates]"

text \<open>Lines 295-314.\<close>

definition completion_actions :: "'v insert_response \<Rightarrow> clock \<Rightarrow> action list" where
  "completion_actions d c =
     [StepStatus 5 StepCompleted,
      (let t = extract_totals d in
       if data_success d
       then JobStatus Completed 100
              (no_updates\<lparr>upd_rowsExtracted := Some (totalRowsExtracted t),
                          upd_rowsInserted := Some (totalRowsInserted t),
                          upd_tablesAffected := Some (tablesSet t),
                          upd_completedAt := Some (finished_string c)\<rparr>)
       else JobStatus Failed 100
              (no_updates\<lparr>upd_error := Some (or_else (data_error d) ''Extraction failed''),
                          upd_rowsExtracted := Some (totalRowsExtracted t),
                          upd_rowsInserted := Some (totalRowsInserted t),
                          upd_tablesAffected := Some (tablesSet t)\<rparr>))]"

definition actions_after_request :: "'v axios_result \<Rightarrow> clock \<Rightarrow> action list" where
  "actions_after_request outcome c =
     (case outcome of
        Rejected e \<Rightarrow> catch_actions e c
      | Resolved d \<Rightarrow> actions_on_response @ completion_actions d c
      | ResolvedMalformed e \<Rightarrow> actions_on_response @ catch_actions e c)"

definition extraction_actions :: "'v axios_result \<Rightarrow> clock \<Rightarrow> action list" where
  "extraction_actions outcome c = actions_before_request @ actions_after_request outcome c"

definition startExtraction ::
  "File list \<Rightarrow> clock \<Rightarrow> 'v axios_result \<Rightarrow> extractor_state \<Rightarrow> extractor_state" where
  "startExtraction files c outcome s =
     fold (run_action (jobId_of c)) (extraction_actions outcome c)
       (begin_extraction (newJob files c) s)"

text \<open>
  Lines 316-319 and 341-344: three seconds after the run the active job and the steps are
  cleared. The job list is not touched. (The toasts of the run change no state.)
\<close>

definition after_timeout :: "extractor_state \<Rightarrow> extractor_state" where
  "after_timeout s = s\<lparr>activeJob := None, extractionSteps := []\<rparr>"

text \<open>The states a run goes through: the state before each update, then the final one.\<close>

fun states_after :: "('a \<Rightarrow> 's \<Rightarrow> 's) \<Rightarrow> 'a list \<Rightarrow> 's \<Rightarrow> 's list" where
  "states_after f [] s = [s]"
| "states_after f (a # as) s = s # states_after f as (f a s)"

definition extraction_trace ::
  "File list \<Rightarrow> clock \<Rightarrow> 'v axios_result \<Rightarrow> extractor_state \<Rightarrow> extractor_state list" where
  "extraction_trace files c outcome s =
     states_after (run_action (jobId_of c)) (extraction_actions outcome c)
       (begin_extraction (newJob files c) s)"

text \<open>The job of the run is the one \<^verbatim>\<open>begin_extraction\<close> put at the front of the list.\<close>

definition the_job :: "extractor_state \<Rightarrow> ExtractionJob" where
  "the_job s = hd (jobs s)"

definition job_trace ::
  "File list \<Rightarrow> clock \<Rightarrow> 'v axios_result \<Rightarrow> extractor_state \<Rightarrow> ExtractionJob list" where
  "job_trace files c outcome s = map the_job (extraction_trace files c outcome s)"

subsection \<open>Runs that overlap\<close>

text \<open>
  \<^verbatim>\<open>startExtraction\<close> runs without interruption up to its awaited request and again from
  the response to its end. While it waits, other code of the component can run: another
  call of \<^verbatim>\<open>startExtraction\<close> up to its own request, the rest of another call after its
  response, and the timer of a run that has ended.
\<close>

datatype 'v event =
    RunStarts "File list" clock
  | RunResumes clock "'v axios_result"
  | TimerFires

fun run_event :: "'v event \<Rightarrow> extractor_state \<Rightarrow> extractor_state" where
  "run_event (RunStarts files c) s =
     fold (run_action (jobId_of c)) actions_before_request (begin_extraction (newJob files c) s)"
| "run_event (RunResumes c outcome) s =
     fold (run_action (jobId_of c)) (actions_after_request outcome c) s"
| "run_event TimerFires s = after_timeout s"

text \<open>The states of a run during whose request the given events take place.\<close>

definition state_at_request :: "File list \<Rightarrow> clock \<Rightarrow> extractor_state \<Rightarrow> extractor_state" where
  "state_at_request files c s =
     fold (run_action (jobId_of c)) actions_before_request (begin_extraction (newJob files c) s)"

definition interleaved_trace ::
  "File list \<Rightarrow> clock \<Rightarrow> 'v axios_result \<Rightarrow> 'v event list \<Rightarrow> extractor_state \<Rightarrow>
   extractor_state list" where
  "interleaved_trace files c outcome events s =
     states_after (run_action (jobId_of c)) actions_before_request
       (begin_extraction (newJob files c) s) @
     tl (states_after run_event events (state_at_request files c s)) @
     tl (states_after (run_action (jobId_of c)) (actions_after_request outcome c)
           (fold run_event events (state_at_request files c s)))"

text \<open>The job with a given id: the first one in the list, as React shows it.\<close>

definition job_of :: "string \<Rightarrow> extractor_state \<Rightarrow> ExtractionJob option" where
  "job_of jobId s = find (\<lambda>job. id_job job = jobId) (jobs s)"

section \<open>JavaScript values, JSON.stringify and JSON.parse\<close>

text \<open>
  The values of JSON. A string is the list of the bytes of its UTF-8 encoding; a number is
  kept as its JSON lexeme. \<^verbatim>\<open>undefined\<close> is not a JSON value: where an expression of the
  source can be \<^verbatim>\<open>undefined\<close> its value is a \<^typ>\<open>'a option\<close>, with \<^term>\<open>None\<close> for
  \<^verbatim>\<open>undefined\<close>. The properties of an object are kept in the order of their insertion.
\<close>

datatype jsval =
    JNull
  | JBool bool
  | JNum string
  | JStr string
  | JArr "jsval list"
  | JObj "(string \<times> jsval) list"

datatype js_error = TypeError

subsection \<open>Truthiness, property reads and Array.prototype.map\<close>

text \<open>
  A number lexeme denotes zero when its digits before any exponent are all zeros. (A
  lexeme whose value is rounded to zero is not told apart from the others.)
\<close>

definition num_is_zero :: "string \<Rightarrow> bool" where
  "num_is_zero n \<longleftrightarrow>
     (\<forall>c \<in> set (takeWhile (\<lambda>c. c \<noteq> CHR ''e'' \<and> c \<noteq> CHR ''E'') n).
        c \<in> {CHR ''0'', CHR ''-'', CHR ''.''})"

fun truthy :: "jsval option \<Rightarrow> bool" where
  "truthy None = False"
| "truthy (Some JNull) = False"
| "truthy (Some (JBool b)) = b"
| "truthy (Some (JNum n)) = (\<not> num_is_zero n)"
| "truthy (Some (JStr s)) = (s \<noteq> [])"
| "truthy (Some (JArr xs)) = True"
| "truthy (Some (JObj kvs)) = True"

text \<open>
  The read \<^verbatim>\<open>v.k\<close> of a property with a fixed name. Reading from \<^verbatim>\<open>undefined\<close> or \<^verbatim>\<open>null\<close>
  throws a TypeError; an object gives its property or \<^verbatim>\<open>undefined\<close>; every other value
  gives \<^verbatim>\<open>undefined\<close>, since none of the names the components read (\<^verbatim>\<open>intro_message\<close>,
  \<^verbatim>\<open>content\<close>, \<^verbatim>\<open>structured\<close>, ...) is a property of an array, a string, a number or a
  boolean.
\<close>

fun read_prop :: "jsval option \<Rightarrow> string \<Rightarrow> js_error + jsval option" where
  "read_prop None k = Inl TypeError"
| "read_prop (Some JNull) k = Inl TypeError"
| "read_prop (Some (JObj kvs)) k = Inr (map_of kvs k)"
| "read_prop (Some v) k = Inr None"

text \<open>Sequencing: an exception thrown by the first computation ends the whole.\<close>

definition and_then :: "js_error + 'a \<Rightarrow> ('a \<Rightarrow> js_error + 'b) \<Rightarrow> js_error + 'b" where
  "and_then r f = (case r of Inl e \<Rightarrow> Inl e | Inr x \<Rightarrow> f x)"

fun map_throwing :: "('a \<Rightarrow> js_error + 'b) \<Rightarrow> 'a list \<Rightarrow> js_error + 'b list" where
  "map_throwing f [] = Inr []"
| "map_throwing f (x # xs) =
     and_then (f x) (\<lambda>y. and_then (map_throwing f xs) (\<lambda>ys. Inr (y # ys)))"

text \<open>
  The call \<^verbatim>\<open>v.map(f)\<close>: only an array has a callable \<^verbatim>\<open>map\<close>; on every other value the
  call throws a TypeError. An exception thrown by the callback ends the call.
\<close>

fun js_map :: "jsval option \<Rightarrow> (jsval \<Rightarrow> js_error + 'b) \<Rightarrow> js_error + 'b list" where
  "js_map (Some (JArr xs)) f = map_throwing f xs"
| "js_map v f = Inl TypeError"

subsection \<open>JSON.stringify\<close>

definition hex_digit :: "nat \<Rightarrow> char" where
  "hex_digit n = (if n < 10 then char_of (48 + n) else char_of (87 + n))"

text \<open>The escapes that \<^verbatim>\<open>JSON.stringify\<close> writes inside a string.\<close>

definition quote_char :: "char \<Rightarrow> string" where
  "quote_char c =
     (if c = CHR 0x22 then [CHR 0x5C, CHR 0x22]
      else if c = CHR 0x5C then [CHR 0x5C, CHR 0x5C]
      else if c = CHR 0x08 then [CHR 0x5C, CHR ''b'']
      else if c = CHR 0x0C then [CHR 0x5C, CHR ''f'']
      else if c = CHR 0x0A then [CHR 0x5C, CHR ''n'']
      else if c = CHR 0x0D then [CHR 0x5C, CHR ''r'']
      else if c = CHR 0x09 then [CHR 0x5C, CHR ''t'']
      else if (of_char c :: nat) < 32
        then [CHR 0x5C, CHR ''u'', CHR ''0'', CHR ''0'',
              hex_digit (of_char c div 16), hex_digit (of_char c mod 16)]
      else [c])"

definition quote :: "string \<Rightarrow> string" where
  "quote s = [CHR 0x22] @ concat (map quote_char s) @ [CHR 0x22]"

fun join :: "string \<Rightarrow> string list \<Rightarrow> string" where
  "join sep [] = []"
| "join sep [x] = x"
| "join sep (x # y # ys) = x @ sep @ join sep (y # ys)"

fun JSON_stringify :: "jsval \<Rightarrow> string" where
  "JSON_stringify JNull = ''null''"
| "JSON_stringify (JBool b) = (if b then ''true'' else ''false'')"
| "JSON_stringify (JNum n) = n"
| "JSON_stringify (JStr s) = quote s"
| "JSON_stringify (JArr xs) = ''['' @ join '','' (map JSON_stringify xs) @ '']''"
| "JSON_stringify (JObj kvs) =
     ''{'' @ join '','' (map (\<lambda>(k, v). quote k @ '':'' @ JSON_stringify v) kvs) @ ''}''"

subsection \<open>JSON.parse\<close>

definition is_ws :: "char \<Rightarrow> bool" where
  "is_ws c \<longleftrightarrow> c = CHR 0x20 \<or> c = CHR 0x09 \<or> c = CHR 0x0A \<or> c = CHR 0x0D"

definition is_digit :: "char \<Rightarrow> bool" where
  "is_digit c \<longleftrightarrow> (48::nat) \<le> of_char c \<and> (of_char c :: nat) \<le> 57"

definition hex_value :: "char \<Rightarrow> nat option" where
  "hex_value c =
     (let n = (of_char c :: nat) in
      if 48 \<le> n \<and> n \<le> 57 then Some (n - 48)
      else if 65 \<le> n \<and> n \<le> 70 then Some (n - 55)
      else if 97 \<le> n \<and> n \<le> 102 then Some (n - 87)
      else None)"

text \<open>The bytes of a UTF-16 code unit written as \<^verbatim>\<open>\uXXXX\<close>, each unit encoded on its own.\<close>

definition utf8 :: "nat \<Rightarrow> string" where
  "utf8 n =
     (if n < 128 then [char_of n]
      else if n < 2048 then [char_of (192 + n div 64), char_of (128 + n mod 64)]
      else [char_of (224 + n div 4096), char_of (128 + (n div 64) mod 64),
            char_of (128 + n mod 64)])"

definition unescape :: "char \<Rightarrow> char option" where
  "unescape e =
     (if e = CHR 0x22 then Some (CHR 0x22)
      else if e = CHR 0x5C then Some (CHR 0x5C)
      else if e = CHR ''/'' then Some (CHR ''/'')
      else if e = CHR ''b'' then Some (CHR 0x08)
      else if e = CHR ''f'' then Some (CHR 0x0C)
      else if e = CHR ''n'' then Some (CHR 0x0A)
      else if e = CHR ''r'' then Some (CHR 0x0D)
      else if e = CHR ''t'' then Some (CHR 0x09)
      else None)"

definition unicode_escape :: "string \<Rightarrow> string option" where
  "unicode_escape s =
     (case s of
        a # b # c # d # rest \<Rightarrow>
          (case (hex_value a, hex_value b, hex_value c, hex_value d) of
             (Some h1, Some h2, Some h3, Some h4) \<Rightarrow>
               Some (utf8 (4096 * h1 + 256 * h2 + 16 * h3 + h4))
           | _ \<Rightarrow> None)
      | _ \<Rightarrow> None)"

text \<open>
  The contents of a string literal, read from after its opening quote: the text and the
  input that follows the closing quote. A control character, an unknown escape and a
  missing closing quote are syntax errors.
\<close>

fun lex_string :: "string \<Rightarrow> string \<Rightarrow> (string \<times> string) option" where
  "lex_string acc [] = None"
| "lex_string acc [c] = (if c = CHR 0x22 then Some (acc, []) else None)"
| "lex_string acc (c # e # cs) =
     (if c = CHR 0x22 then Some (acc, e # cs)
      else if c = CHR 0x5C then
        (if e = CHR ''u'' then
           (case unicode_escape cs of
              None \<Rightarrow> None
            | Some u \<Rightarrow> lex_string (acc @ u) (drop 4 cs))
         else (case unescape e of None \<Rightarrow> None | Some x \<Rightarrow> lex_string (acc @ [x]) cs))
      else if (of_char c :: nat) < 32 then None
      else lex_string (acc @ [c]) (e # cs))"

definition number_char :: "char \<Rightarrow> bool" where
  "number_char c \<longleftrightarrow>
     is_digit c \<or> c = CHR ''-'' \<or> c = CHR ''+'' \<or> c = CHR ''.'' \<or> c = CHR ''e'' \<or> c = CHR ''E''"

text \<open>The grammar of a JSON number: sign, integer part, fraction, exponent.\<close>

definition is_number :: "string \<Rightarrow> bool" where
  "is_number s =
     (let unsigned = (case s of c # r \<Rightarrow> if c = CHR ''-'' then r else s | [] \<Rightarrow> s);
          int_part = takeWhile is_digit unsigned;
          after_int = dropWhile is_digit unsigned;
          int_ok = (int_part \<noteq> [] \<and> (hd int_part = CHR ''0'' \<longrightarrow> length int_part = 1));
          has_frac = (after_int \<noteq> [] \<and> hd after_int = CHR ''.'');
          frac_part = (if has_frac then takeWhile is_digit (tl after_int) else []);
          after_frac = (if has_frac then dropWhile is_digit (tl after_int) else after_int);
          frac_ok = (has_frac \<longrightarrow> frac_part \<noteq> []);
          has_exp = (after_frac \<noteq> [] \<and> (hd after_frac = CHR ''e'' \<or> hd after_frac = CHR ''E''));
          exp_signed = (if has_exp then tl after_frac else []);
          exp_digits = (case exp_signed of
                          c # r \<Rightarrow> if c = CHR ''+'' \<or> c = CHR ''-'' then r else exp_signed
                        | [] \<Rightarrow> []);
          exp_ok = (if has_exp then exp_digits \<noteq> [] \<and> list_all is_digit exp_digits
                    else after_frac = [])
      in int_ok \<and> frac_ok \<and> exp_ok)"

datatype token =
    TLBrace | TRBrace | TLBracket | TRBracket | TColon | TComma
  | TValue jsval

definition lex_literal :: "string \<Rightarrow> (jsval \<times> string) option" where
  "lex_literal s =
     (if take 4 s = ''true'' then Some (JBool True, drop 4 s)
      else if take 5 s = ''false'' then Some (JBool False, drop 5 s)
      else if take 4 s = ''null'' then Some (JNull, drop 4 s)
      else None)"

function tokenize :: "string \<Rightarrow> token list option" where
  "tokenize [] = Some []"
| "tokenize (c # cs) =
     (if is_ws c then tokenize cs
      else if c = CHR ''{'' then map_option (Cons TLBrace) (tokenize cs)
      else if c = CHR ''}'' then map_option (Cons TRBrace) (tokenize cs)
      else if c = CHR ''['' then map_option (Cons TLBracket) (tokenize cs)
      else if c = CHR '']'' then map_option (Cons TRBracket) (tokenize cs)
      else if c = CHR '':'' then map_option (Cons TColon) (tokenize cs)
      else if c = CHR '','' then map_option (Cons TComma) (tokenize cs)
      else if c = CHR 0x22 then
        (case lex_string [] cs of
           None \<Rightarrow> None
         | Some (s, rest) \<Rightarrow> map_option (Cons (TValue (JStr s))) (tokenize rest))
      else if c = CHR ''-'' \<or> is_digit c then
        (if is_number (c # takeWhile number_char cs)
         then map_option (Cons (TValue (JNum (c # takeWhile number_char cs))))
                (tokenize (dropWhile number_char cs))
         else None)
      else
        (case lex_literal (c # cs) of
           None \<Rightarrow> None
         | Some (v, rest) \<Rightarrow> map_option (Cons (TValue v)) (tokenize rest)))"
  by pat_completeness auto
termination
proof (relation "measure length", goal_cases)
  case 1
  show ?case by simp
next
  case (9 c cs x2 s rest)
  have shorter: "lex_string acc inp = Some (t, r) \<Longrightarrow> length r < length inp"
    for acc inp t r
  proof (induction acc inp rule: lex_string.induct)
    case (3 acc c e cs)
    then show ?case
      by (auto split: if_splits option.splits simp: less_Suc_eq)
  qed (auto split: if_splits)
  from 9 show ?case
    using shorter [of "[]" cs s rest] by simp
next
  case (10 c cs)
  have "length (dropWhile number_char cs) \<le> length cs"
    by (rule length_dropWhile_le)
  then show ?case by simp
next
  case (11 c cs x2 v rest)
  then have "length rest < length (c # cs)"
    by (auto simp: lex_literal_def split: if_splits)
  then show ?case by simp
qed simp_all

text \<open>
  The grammar of JSON over the tokens, as a machine with a stack of the containers that
  are open. Setting a property that the object already has replaces its value.
\<close>

datatype container =
    InArray "jsval list"
  | InObject "(string \<times> jsval) list" "string option"

datatype expect =
    ExpValue | ExpValueOrClose | ExpKeyOrClose | ExpKey | ExpColon | ExpCommaOrClose | ExpEnd

definition obj_set :: "string \<Rightarrow> jsval \<Rightarrow> (string \<times> jsval) list \<Rightarrow> (string \<times> jsval) list" where
  "obj_set k v kvs =
     (if k \<in> fst ` set kvs then map (\<lambda>(k', v'). if k' = k then (k', v) else (k', v')) kvs
      else kvs @ [(k, v)])"

text \<open>A value is complete: it is the result, an element of the array or the value of the key.\<close>

definition deliver ::
  "jsval \<Rightarrow> container list \<Rightarrow> (expect \<times> container list \<times> jsval option) option" where
  "deliver v stack =
     (case stack of
        [] \<Rightarrow> Some (ExpEnd, [], Some v)
      | InArray xs # rest \<Rightarrow> Some (ExpCommaOrClose, InArray (xs @ [v]) # rest, None)
      | InObject kvs (Some k) # rest \<Rightarrow>
          Some (ExpCommaOrClose, InObject (obj_set k v kvs) None # rest, None)
      | InObject kvs None # rest \<Rightarrow> None)"

definition open_or_value ::
  "token \<Rightarrow> container list \<Rightarrow> (expect \<times> container list \<times> jsval option) option" where
  "open_or_value t stack =
     (case t of
        TValue v \<Rightarrow> deliver v stack
      | TLBracket \<Rightarrow> Some (ExpValueOrClose, InArray [] # stack, None)
      | TLBrace \<Rightarrow> Some (ExpKeyOrClose, InObject [] None # stack, None)
      | _ \<Rightarrow> None)"

definition close_array ::
  "container list \<Rightarrow> (expect \<times> container list \<times> jsval option) option" where
  "close_array stack =
     (case stack of InArray xs # rest \<Rightarrow> deliver (JArr xs) rest | _ \<Rightarrow> None)"

definition close_object ::
  "container list \<Rightarrow> (expect \<times> container list \<times> jsval option) option" where
  "close_object stack =
     (case stack of InObject kvs None # rest \<Rightarrow> deliver (JObj kvs) rest | _ \<Rightarrow> None)"

definition read_key ::
  "token \<Rightarrow> container list \<Rightarrow> (expect \<times> container list \<times> jsval option) option" where
  "read_key t stack =
     (case (t, stack) of
        (TValue (JStr k), InObject kvs None # rest) \<Rightarrow>
          Some (ExpColon, InObject kvs (Some k) # rest, None)
      | _ \<Rightarrow> None)"

definition parse_step ::
  "token \<Rightarrow> expect \<Rightarrow> container list \<Rightarrow> (expect \<times> container list \<times> jsval option) option" where
  "parse_step t e stack =
     (case e of
        ExpValue \<Rightarrow> open_or_value t stack
      | ExpValueOrClose \<Rightarrow> (if t = TRBracket then close_array stack else open_or_value t stack)
      | ExpKeyOrClose \<Rightarrow> (if t = TRBrace then close_object stack else read_key t stack)
      | ExpKey \<Rightarrow> read_key t stack
      | ExpColon \<Rightarrow> (if t = TColon then Some (ExpValue, stack, None) else None)
      | ExpCommaOrClose \<Rightarrow>
          (if t = TRBracket then close_array stack
           else if t = TRBrace then close_object stack
           else if t = TComma then
             (case stack of
                InArray xs # rest \<Rightarrow> Some (ExpValue, stack, None)
              | InObject kvs k # rest \<Rightarrow> Some (ExpKey, stack, None)
              | [] \<Rightarrow> None)
           else None)
      | ExpEnd \<Rightarrow> None)"

fun parse_tokens ::
  "token list \<Rightarrow> expect \<Rightarrow> container list \<Rightarrow> jsval option \<Rightarrow> jsval option" where
  "parse_tokens [] e stack result = (if e = ExpEnd then result else None)"
| "parse_tokens (t # ts) e stack result =
     (case parse_step t e stack of
        None \<Rightarrow> None
      | Some (e', stack', result') \<Rightarrow> parse_tokens ts e' stack' result')"

text \<open>\<^verbatim>\<open>JSON.parse\<close>: the value of the text, or \<^term>\<open>None\<close> where it throws a SyntaxError.\<close>

definition JSON_parse :: "string \<Rightarrow> jsval option" where
  "JSON_parse s =
     (case tokenize s of None \<Rightarrow> None | Some ts \<Rightarrow> parse_tokens ts ExpValue [] None)"

section \<open>The chat (chat-interface.tsx)\<close>

datatype sender = User | Bot

record Message =
  id_msg :: string
  content :: string
  sender :: sender
  timestamp :: nat

record chat_state =
  messages :: "Message list"
  isTyping :: bool

definition botResponses_default :: string where
  "botResponses_default = ''Thank you for your question. I'm processing your request. For immediate assistance, you can also contact our Student Services office at (555) 123-4567 or email support@university.edu. Is there anything specific I can help you with?''"

text \<open>\<^verbatim>\<open>JSON.stringify({ intro_message: botResponses['default'] })\<close>\<close>

definition default_reply :: string where
  "default_reply = JSON_stringify (JObj [(''intro_message'', JStr botResponses_default)])"

text \<open>
  What the request to \<^verbatim>\<open>/api/chat\<close> comes to: the promise rejects; the response has no body
  object, so that reading \<^verbatim>\<open>response.data.reply\<close> throws inside the \<^verbatim>\<open>try\<close>; or the body is
  an object whose \<^verbatim>\<open>reply\<close> is absent or a string (the function is declared to return a
  string).
\<close>

datatype chat_response = RequestFailed | NoData | Data "string option"

text \<open>
  Lines 63-71. The first argument stands for the backend. In \<^verbatim>\<open>reply || fallback\<close> an
  absent and an empty reply are falsy; after the \<^verbatim>\<open>catch\<close> the function returns the same
  fallback.
\<close>

definition getBotResponse :: "(string \<Rightarrow> chat_response) \<Rightarrow> string \<Rightarrow> string" where
  "getBotResponse backend userMessage =
     (case backend userMessage of
        Data (Some reply) \<Rightarrow> if reply \<noteq> [] then reply else default_reply
      | Data None \<Rightarrow> default_reply
      | NoData \<Rightarrow> default_reply
      | RequestFailed \<Rightarrow> default_reply)"

text \<open>The readings of the clock in \<^verbatim>\<open>handleSendMessage\<close>, in milliseconds.\<close>

record chat_clock =
  now_user :: nat
  date_user :: nat
  now_bot :: nat
  date_bot :: nat

text \<open>Lines 74-82: the part of \<^verbatim>\<open>handleSendMessage\<close> before the reply is awaited.\<close>

definition send_user_message :: "string \<Rightarrow> chat_clock \<Rightarrow> chat_state \<Rightarrow> chat_state" where
  "send_user_message c clk s =
     s\<lparr>messages := messages s @
          [\<lparr>id_msg = number_toString (now_user clk), content = c, sender = User,
            timestamp = date_user clk\<rparr>],
       isTyping := True\<rparr>"

text \<open>Lines 84-91: the part after the reply has arrived.\<close>

definition send_bot_message :: "string \<Rightarrow> chat_clock \<Rightarrow> chat_state \<Rightarrow> chat_state" where
  "send_bot_message reply clk s =
     s\<lparr>messages := messages s @
          [\<lparr>id_msg = number_toString (now_bot clk + 1), content = reply, sender = Bot,
            timestamp = date_bot clk\<rparr>],
       isTyping := False\<rparr>"

definition handleSendMessage ::
  "(string \<Rightarrow> chat_response) \<Rightarrow> string \<Rightarrow> chat_clock \<Rightarrow> chat_state \<Rightarrow> chat_state" where
  "handleSendMessage backend c clk s =
     send_bot_message (getBotResponse backend c) clk (send_user_message c clk s)"

section \<open>The message components (chat-message)\<close>

text \<open>
  What a component function returns: a tree of elements. A host element is kept with its
  tag and its children (class names and keys are left out), a JavaScript value in child
  position is kept as it is, and an element of one of the four layout components is kept
  with the layout it is given. Two values that are not JSON values can reach a child
  position through a property read with a computed name: a method that every object
  inherits from \<^verbatim>\<open>Object.prototype\<close> (kept with its name), and \<^verbatim>\<open>Object.prototype\<close> itself.
\<close>

datatype node =
    Element string "node list"
  | Value "jsval option"
  | FunctionValue string
  | ObjectPrototypeValue
  | TableComponent_element "jsval option"
  | CardsComponent_element "jsval option"
  | ListComponent_element "jsval option"
  | TextComponent_element "jsval option"

subsection \<open>Parent (parent.tsx)\<close>

text \<open>JavaScript's whitespace, as \<^verbatim>\<open>trim\<close> removes it: the number of bytes of the first character.\<close>

definition ws_length :: "string \<Rightarrow> nat" where
  "ws_length s =
     (if s = [] then 0
      else if hd s \<in> {CHR 0x09, CHR 0x0A, CHR 0x0B, CHR 0x0C, CHR 0x0D, CHR 0x20} then 1
      else if take 2 s = [CHR 0xC2, CHR 0xA0] then 2
      else if take 3 s \<in>
          {[CHR 0xE1, CHR 0x9A, CHR 0x80], [CHR 0xE2, CHR 0x80, CHR 0x80],
           [CHR 0xE2, CHR 0x80, CHR 0x81], [CHR 0xE2, CHR 0x80, CHR 0x82],
           [CHR 0xE2, CHR 0x80, CHR 0x83], [CHR 0xE2, CHR 0x80, CHR 0x84],
           [CHR 0xE2, CHR 0x80, CHR 0x85], [CHR 0xE2, CHR 0x80, CHR 0x86],
           [CHR 0xE2, CHR 0x80, CHR 0x87], [CHR 0xE2, CHR 0x80, CHR 0x88],
           [CHR 0xE2, CHR 0x80, CHR 0x89], [CHR 0xE2, CHR 0x80, CHR 0x8A],
           [CHR 0xE2, CHR 0x80, CHR 0xA8], [CHR 0xE2, CHR 0x80, CHR 0xA9],
           [CHR 0xE2, CHR 0x80, CHR 0xAF], [CHR 0xE2, CHR 0x81, CHR 0x9F],
           [CHR 0xE3, CHR 0x80, CHR 0x80], [CHR 0xEF, CHR 0xBB, CHR 0xBF]} then 3
      else 0)"

function trimStart :: "string \<Rightarrow> string" where
  "trimStart s = (if ws_length s = 0 then s else trimStart (drop (ws_length s) s))"
  by pat_completeness auto
termination
proof (relation "measure length", goal_cases)
  case 1
  show ?case by simp
next
  case (2 s)
  then have "s \<noteq> []"
    by (auto simp: ws_length_def)
  with 2 show ?case by simp
qed

text \<open>
  \<^verbatim>\<open>reply.trim().startsWith(c)\<close> for a character that is not whitespace: trimming the end
  cannot change the first character of the result.
\<close>

definition trimmed_startsWith :: "string \<Rightarrow> char \<Rightarrow> bool" where
  "trimmed_startsWith reply c = (case trimStart reply of [] \<Rightarrow> False | x # xs \<Rightarrow> x = c)"

text \<open>
  The effect of lines 13-24, from the state \<^verbatim>\<open>response\<close> before it to the state after it.
  When \<^verbatim>\<open>JSON.parse\<close> throws, the exception is caught and the state is left as it was.
\<close>

definition Parent_effect :: "string \<Rightarrow> jsval option \<Rightarrow> jsval option" where
  "Parent_effect reply response =
     (if trimmed_startsWith reply (CHR ''{'') \<or> trimmed_startsWith reply (CHR ''['')
      then (case JSON_parse reply of None \<Rightarrow> response | Some parsedResponse \<Rightarrow> Some parsedResponse)
      else None)"

text \<open>\<^verbatim>\<open>v && element\<close> in child position: the element when the value is truthy, else the value.\<close>

definition and_element :: "jsval option \<Rightarrow> node \<Rightarrow> node" where
  "and_element v el = (if truthy v then el else Value v)"

text \<open>Lines 42-67: the \<^verbatim>\<open>switch\<close> on the type of a component.\<close>

definition render_component :: "jsval \<Rightarrow> js_error + node" where
  "render_component c =
     and_then (read_prop (Some c) ''component_type'') (\<lambda>t.
       if t = Some (JStr ''table'') then
         and_then (read_prop (Some c) ''table_layout'') (\<lambda>l.
           Inr (if truthy l then TableComponent_element l else Value (Some JNull)))
       else if t = Some (JStr ''cards'') then
         and_then (read_prop (Some c) ''cards_layout'') (\<lambda>l.
           Inr (if truthy l then CardsComponent_element l else Value (Some JNull)))
       else if t = Some (JStr ''list'') then
         and_then (read_prop (Some c) ''list_layout'') (\<lambda>l.
           Inr (if truthy l then ListComponent_element l else Value (Some JNull)))
       else if t = Some (JStr ''text'') then
         and_then (read_prop (Some c) ''text_layout'') (\<lambda>l.
           Inr (if truthy l then TextComponent_element l else Value (Some JNull)))
       else Inr (Value (Some JNull)))"

text \<open>Lines 36-69: one block of the structured content.\<close>

definition render_block :: "jsval \<Rightarrow> js_error + node" where
  "render_block block =
     and_then (read_prop (Some block) ''message'') (\<lambda>m.
     and_then (read_prop (Some block) ''components'') (\<lambda>components.
     and_then (js_map components render_component) (\<lambda>rendered.
       Inr (Element ''div'' (and_element m (Element ''p'' [Value m]) # rendered)))))"

text \<open>
  Lines 26-80: what the function returns for a reply and a state \<^verbatim>\<open>response\<close>, or the
  TypeError it throws.
\<close>

definition Parent_render :: "string \<Rightarrow> jsval option \<Rightarrow> js_error + node" where
  "Parent_render reply response =
     (if truthy response then
        and_then (read_prop response ''intro_message'') (\<lambda>intro.
        and_then (read_prop response ''content'') (\<lambda>response_content.
        and_then (read_prop response_content ''structured'') (\<lambda>structured.
        and_then (js_map structured render_block) (\<lambda>blocks.
        and_then (read_prop response_content ''rawtext'') (\<lambda>rawtext.
          Inr (Element ''div''
                 (and_element intro (Element ''p'' [Value intro]) # blocks @
                  [and_element rawtext (Element ''p'' [Value rawtext])])))))))
      else Inr (Element ''div'' [Element ''p'' [Value (Some (JStr reply))]]))"

text \<open>
  A Parent that is mounted for a reply: its state starts as \<^verbatim>\<open>null\<close>, the effect runs, and
  the function is called with the state the effect has set.
\<close>

definition Parent :: "string \<Rightarrow> js_error + node" where
  "Parent reply = Parent_render reply (Parent_effect reply None)"

subsection \<open>The layouts (@type-resp.ts) and TableComponent (Table.tsx)\<close>

record TableColumn =
  key :: string
  label :: string

text \<open>\<^verbatim>\<open>string | number | null\<close>, a number as its lexeme.\<close>

datatype cell = CellString string | CellNumber string | CellNull

type_synonym TableRow = "(string \<times> cell) list"

record TableLayout =
  columns :: "TableColumn list"
  rows :: "TableRow list"

datatype card_label = Head | Body | Image | Footer

record CardMeta =
  meta_label :: card_label
  meta_value :: string

record Card =
  title :: string
  subtitle :: "string option"
  meta :: "CardMeta list"

record CardsLayout =
  cards :: "Card list"

record ListItem =
  item_text :: string

record ListLayout =
  items :: "ListItem list"

record TextLayout =
  text_content :: string

fun cell_value :: "cell \<Rightarrow> jsval" where
  "cell_value (CellString s) = JStr s"
| "cell_value (CellNumber n) = JNum n"
| "cell_value CellNull = JNull"

text \<open>
  The names of the properties that a plain object inherits from \<^verbatim>\<open>Object.prototype\<close>. All
  are methods, except \<^verbatim>\<open>__proto__\<close>, whose value on a plain object is \<^verbatim>\<open>Object.prototype\<close>.
\<close>

definition Object_prototype_methods :: "string list" where
  "Object_prototype_methods =
     [''constructor'', ''hasOwnProperty'', ''isPrototypeOf'', ''propertyIsEnumerable'',
      ''toLocaleString'', ''toString'', ''valueOf'', ''__defineGetter__'',
      ''__defineSetter__'', ''__lookupGetter__'', ''__lookupSetter__'']"

definition Object_prototype_names :: "string list" where
  "Object_prototype_names = ''__proto__'' # Object_prototype_methods"

text \<open>
  \<^verbatim>\<open>row[col.key]\<close> in child position: the value of the row's own property when it has one;
  else what the row inherits under that name; else \<^verbatim>\<open>undefined\<close>.
\<close>

definition row_at :: "TableRow \<Rightarrow> string \<Rightarrow> node" where
  "row_at row k =
     (case map_of row k of
        Some c \<Rightarrow> Value (Some (cell_value c))
      | None \<Rightarrow>
          if k = ''__proto__'' then ObjectPrototypeValue
          else if k \<in> set Object_prototype_methods then FunctionValue k
          else Value None)"

definition TableComponent :: "TableLayout \<Rightarrow> node" where
  "TableComponent table_layout =
     Element ''div''
       [Element ''table''
          [Element ''thead''
             [Element ''tr''
                (map (\<lambda>col. Element ''th'' [Value (Some (JStr (label col)))])
                     (columns table_layout))],
           Element ''tbody''
             (map (\<lambda>row. Element ''tr''
                            (map (\<lambda>col. Element ''td'' [row_at row (key col)])
                                 (columns table_layout)))
                  (rows table_layout))]]"

text \<open>
  What React does with a tree that a component returns: a string, a number, a boolean,
  \<^verbatim>\<open>null\<close> and \<^verbatim>\<open>undefined\<close> in child position are rendered (the last three as nothing), an
  array is rendered child by child, a function is left out with a warning, and an object
  makes React throw (objects are not valid as a React child). The elements of the layout
  components are rendered by their own functions and are not looked into here.
\<close>

fun valid_child :: "jsval \<Rightarrow> bool" where
  "valid_child (JObj kvs) = False"
| "valid_child (JArr xs) = (\<forall>x \<in> set xs. valid_child x)"
| "valid_child v = True"

fun renderable :: "node \<Rightarrow> bool" where
  "renderable (Element t cs) = (\<forall>c \<in> set cs. renderable c)"
| "renderable (Value v) = (case v of None \<Rightarrow> True | Some x \<Rightarrow> valid_child x)"
| "renderable (FunctionValue k) = True"
| "renderable ObjectPrototypeValue = False"
| "renderable n = True"

text \<open>
  The union of the four kinds of component of \<^verbatim>\<open>ResponseType\<close>: each variant fixes the
  \<^verbatim>\<open>component_type\<close>, has its own layout and declares the three other layout fields as
  \<^verbatim>\<open>never\<close>. The functions below read the fields of a component as the variants declare
  them.
\<close>

datatype component =
    TableVariant TableLayout
  | CardsVariant CardsLayout
  | ListVariant ListLayout
  | TextVariant TextLayout

fun component_type :: "component \<Rightarrow> string" where
  "component_type (TableVariant l) = ''table''"
| "component_type (CardsVariant l) = ''cards''"
| "component_type (ListVariant l) = ''list''"
| "component_type (TextVariant l) = ''text''"

fun table_layout :: "component \<Rightarrow> TableLayout option" where
  "table_layout (TableVariant l) = Some l"
| "table_layout c = None"

fun cards_layout :: "component \<Rightarrow> CardsLayout option" where
  "cards_layout (CardsVariant l) = Some l"
| "cards_layout c = None"

fun list_layout :: "component \<Rightarrow> ListLayout option" where
  "list_layout (ListVariant l) = Some l"
| "list_layout c = None"

fun text_layout :: "component \<Rightarrow> TextLayout option" where
  "text_layout (TextVariant l) = Some l"
| "text_layout c = None"

text \<open>The JSON value of a component of the union, as \<^verbatim>\<open>JSON.parse\<close> hands it to Parent.\<close>

definition TableLayout_json :: "TableLayout \<Rightarrow> jsval" where
  "TableLayout_json l =
     JObj [(''columns'', JArr (map (\<lambda>col. JObj [(''key'', JStr (key col)),
                                                   (''label'', JStr (label col))])
                                  (columns l))),
           (''rows'', JArr (map (\<lambda>row. JObj (map (\<lambda>(k, c). (k, cell_value c)) row))
                               (rows l)))]"

fun card_label_json :: "card_label \<Rightarrow> jsval" where
  "card_label_json Head = JStr ''head''"
| "card_label_json Body = JStr ''body''"
| "card_label_json Image = JStr ''image''"
| "card_label_json Footer = JStr ''footer''"

definition Card_json :: "Card \<Rightarrow> jsval" where
  "Card_json c =
     JObj ([(''title'', JStr (title c))] @
           (case subtitle c of None \<Rightarrow> [] | Some s \<Rightarrow> [(''subtitle'', JStr s)]) @
           [(''meta'', JArr (map (\<lambda>m. JObj [(''label'', card_label_json (meta_label m)),
                                              (''value'', JStr (meta_value m))])
                                 (meta c)))])"

definition CardsLayout_json :: "CardsLayout \<Rightarrow> jsval" where
  "CardsLayout_json l = JObj [(''cards'', JArr (map Card_json (cards l)))]"

definition ListLayout_json :: "ListLayout \<Rightarrow> jsval" where
  "ListLayout_json l =
     JObj [(''items'', JArr (map (\<lambda>i. JObj [(''text'', JStr (item_text i))]) (items l)))]"

definition TextLayout_json :: "TextLayout \<Rightarrow> jsval" where
  "TextLayout_json l = JObj [(''content'', JStr (text_content l))]"

fun component_json :: "component \<Rightarrow> jsval" where
  "component_json (TableVariant l) =
     JObj [(''component_type'', JStr ''table''), (''table_layout'', TableLayout_json l)]"
| "component_json (CardsVariant l) =
     JObj [(''component_type'', JStr ''cards''), (''cards_layout'', CardsLayout_json l)]"
| "component_json (ListVariant l) =
     JObj [(''component_type'', JStr ''list''), (''list_layout'', ListLayout_json l)]"
| "component_json (TextVariant l) =
     JObj [(''component_type'', JStr ''text''), (''text_layout'', TextLayout_json l)]"

text \<open>The element Parent's \<^verbatim>\<open>switch\<close> is to return for a component of the union.\<close>

fun layout_element :: "component \<Rightarrow> node" where
  "layout_element (TableVariant l) = TableComponent_element (Some (TableLayout_json l))"
| "layout_element (CardsVariant l) = CardsComponent_element (Some (CardsLayout_json l))"
| "layout_element (ListVariant l) = ListComponent_element (Some (ListLayout_json l))"
| "layout_element (TextVariant l) = TextComponent_element (Some (TextLayout_json l))"

subsection \<open>Notions used to state the properties of a run\<close>

definition terminal :: "job_status \<Rightarrow> bool" where
  "terminal st \<longleftrightarrow> st = Completed \<or> st = Failed"

text \<open>The ids of the steps that are shown as active in a state.\<close>

definition active_steps :: "extractor_state \<Rightarrow> string list" where
  "active_steps s = map step_id (filter (\<lambda>x. step_status x = Active) (extractionSteps s))"

text \<open>An event of a run other than the one of the given job id (a timer has no job id).\<close>

fun other_run :: "string \<Rightarrow> 'v event \<Rightarrow> bool" where
  "other_run jobId (RunStarts files c) = (jobId_of c \<noteq> jobId)"
| "other_run jobId (RunResumes c outcome) = (jobId_of c \<noteq> jobId)"
| "other_run jobId TimerFires = True"

text \<open>The status of the job of a run in each state of the run, events included.\<close>

definition job_status_trace ::
  "File list \<Rightarrow> clock \<Rightarrow> 'v axios_result \<Rightarrow> 'v event list \<Rightarrow> extractor_state \<Rightarrow>
   job_status option list" where
  "job_status_trace files c outcome events s =
     map (\<lambda>st. map_option status (job_of (jobId_of c) st))
         (interleaved_trace files c outcome events s)"

text \<open>
  What an update does to the job it is applied to, and the updates that leave the id of
  the job as it is (every update of the source does).
\<close>

fun job_step :: "action \<Rightarrow> ExtractionJob \<Rightarrow> ExtractionJob" where
  "job_step (JobStatus st p u) j = updated_job j st p u"
| "job_step a j = j"

fun keeps_id :: "action \<Rightarrow> bool" where
  "keeps_id (JobStatus st p u) = (upd_id u = None)"
| "keeps_id a = True"

text \<open>A run in which a stage fails: the \<^verbatim>\<open>catch\<close> block runs, or the body reports failure.\<close>

definition request_fails :: "'v axios_result \<Rightarrow> bool" where
  "request_fails outcome =
     (case outcome of Rejected e \<Rightarrow> True | Resolved d \<Rightarrow> \<not> data_success d
      | ResolvedMalformed e \<Rightarrow> True)"

text \<open>
  The quantities of the specification, stated on the response body without the loop of the
  source: the parsed queries of the successful per-file results, the number of their value
  rows, and the set of their table names.
\<close>

definition queries_in :: "'v file_result \<Rightarrow> 'v parsed_query list" where
  "queries_in r = (case parsed_queries r of None \<Rightarrow> [] | Some pqs \<Rightarrow> pqs)"

definition queries_of :: "'v insert_response \<Rightarrow> 'v parsed_query list" where
  "queries_of d =
     concat (map queries_in
                 (filter success (case data_results d of None \<Rightarrow> [] | Some rs \<Rightarrow> rs)))"

definition total_value_rows :: "'v insert_response \<Rightarrow> nat" where
  "total_value_rows d = sum_list (map values_length (queries_of d))"

definition table_names :: "'v insert_response \<Rightarrow> string set" where
  "table_names d = table_name ` set (queries_of d)"

subsection \<open>Concrete inputs\<close>

text \<open>The job list the component starts with (lines 161-186).\<close>

definition initial_jobs :: "ExtractionJob list" where
  "initial_jobs =
     [\<lparr>id_job = ''1'', folderName = ''student_records_2024'', filesCount = 15,
       status = Completed, progress = 100, rowsExtracted = 2450, rowsInserted = 2450,
       tablesAffected = [''students'', ''enrollments'', ''grades''],
       startedAt = ''2024-01-15 14:30'', completedAt = Some ''2024-01-15 14:35'', error = None\<rparr>,
      \<lparr>id_job = ''2'', folderName = ''course_data_spring'', filesCount = 8,
       status = Completed, progress = 100, rowsExtracted = 890, rowsInserted = 890,
       tablesAffected = [''courses'', ''schedules''],
       startedAt = ''2024-01-14 10:15'', completedAt = Some ''2024-01-14 10:18'', error = None\<rparr>]"

definition initial_state :: extractor_state where
  "initial_state = \<lparr>jobs = initial_jobs, activeJob = None, extractionSteps = []\<rparr>"

definition example_clock :: clock where
  "example_clock =
     \<lparr>now_id = 1700000000000, now_folder = 1700000000000,
      started_string = ''11/14/2023, 10:13:20 PM'',
      finished_string = ''11/14/2023, 10:13:21 PM''\<rparr>"

definition network_error :: thrown where
  "network_error = \<lparr>response_data_error = None, message = ''Network Error''\<rparr>"

definition courses_csv :: "File list" where
  "courses_csv = [\<lparr>file_name = ''courses.csv'', webkitRelativePath = ''upload/courses.csv''\<rparr>]"

text \<open>A body for a CSV file of three rows that maps to the table \<^verbatim>\<open>courses\<close>.\<close>

definition courses_response :: "string list insert_response" where
  "courses_response =
     \<lparr>data_success = True,
      data_results = Some
        [\<lparr>success = True,
          parsed_queries = Some [\<lparr>table_name = ''courses'',
                                  pq_values = Some [[''1'', ''Algebra''], [''2'', ''Physics''],
                                                    [''3'', ''History'']]\<rparr>]\<rparr>],
      data_error = None, successful_count = 1\<rparr>"

text \<open>A body for two files of which one was inserted, with the overall flag unset.\<close>

definition partial_failure :: "string list insert_response" where
  "partial_failure =
     \<lparr>data_success = False,
      data_results = Some
        [\<lparr>success = True,
          parsed_queries = Some [\<lparr>table_name = ''courses'',
                                  pq_values = Some [[''1'', ''Algebra'']]\<rparr>]\<rparr>,
         \<lparr>success = False, parsed_queries = None\<rparr>],
      data_error = Some ''1 file(s) failed'', successful_count = 1\<rparr>"

text \<open>A body for two files of which one was inserted, with the overall flag set.\<close>

definition completed_with_failed_file :: "string list insert_response" where
  "completed_with_failed_file =
     \<lparr>data_success = True,
      data_results = Some
        [\<lparr>success = True,
          parsed_queries = Some [\<lparr>table_name = ''courses'',
                                  pq_values = Some [[''1'', ''Algebra'']]\<rparr>]\<rparr>,
         \<lparr>success = False, parsed_queries = None\<rparr>],
      data_error = Some ''1 file(s) failed'', successful_count = 1\<rparr>"

text \<open>
  An upload that failed two seconds before the one of \<^term>\<open>example_clock\<close> (its timer is
  still to fire), and one that starts half a second after it.
\<close>

definition earlier_clock :: clock where
  "earlier_clock =
     \<lparr>now_id = 1699999998000, now_folder = 1699999998000,
      started_string = ''11/14/2023, 10:13:18 PM'',
      finished_string = ''11/14/2023, 10:13:18 PM''\<rparr>"

definition later_clock :: clock where
  "later_clock =
     \<lparr>now_id = 1700000000500, now_folder = 1700000000500,
      started_string = ''11/14/2023, 10:13:20 PM'',
      finished_string = ''11/14/2023, 10:13:22 PM''\<rparr>"

definition state_after_failed_run :: extractor_state where
  "state_after_failed_run =
     startExtraction courses_csv earlier_clock
       (Rejected network_error :: string list axios_result) initial_state"

subsection \<open>Concrete inputs of the chat\<close>

definition example_chat_clock :: chat_clock where
  "example_chat_clock =
     \<lparr>now_user = 1700000000000, date_user = 1700000000000,
      now_bot = 1700000000001, date_bot = 1700000000850\<rparr>"

text \<open>A backend that cannot be reached: every request fails.\<close>

definition backend_down :: "string \<Rightarrow> chat_response" where
  "backend_down m = RequestFailed"

text \<open>The content of the message the chat starts with (lines 18-31).\<close>

definition initial_message_content :: string where
  "initial_message_content =
     JSON_stringify
       (JObj [(''intro_message'',
               JStr (''Hello! '' @ [CHR 0xF0, CHR 0x9F, CHR 0x91, CHR 0x8B] @
                     '' Welcome to the University Assistant. I'm here to help you with admissions, course information, campus services, and more. How can I assist you today?'')),
              (''content'', JObj [(''structured'', JArr []), (''rawtext'', JStr [])])])"

definition faculty_columns :: "TableColumn list" where
  "faculty_columns =
     [\<lparr>key = ''name'', label = ''Name''\<rparr>, \<lparr>key = ''course'', label = ''Course''\<rparr>]"

text \<open>The table for a question that no row of the store matches.\<close>

definition no_faculty :: TableLayout where
  "no_faculty = \<lparr>columns = faculty_columns, rows = []\<rparr>"

definition one_faculty :: TableLayout where
  "one_faculty =
     \<lparr>columns = faculty_columns,
      rows = [[(''name'', CellString ''A. Turing''), (''course'', CellString ''Mathematics''),
               (''room'', CellNumber ''12'')]]\<rparr>"

text \<open>
  The layouts whose column keys are plain: each is a property of the row itself or not a
  name of \<^verbatim>\<open>Object.prototype\<close>.
\<close>

definition plain_keys :: "TableLayout \<Rightarrow> bool" where
  "plain_keys layout \<longleftrightarrow>
     (\<forall>row \<in> set (rows layout). \<forall>col \<in> set (columns layout).
        key col \<in> fst ` set row \<or> key col \<notin> set Object_prototype_names)"

text \<open>A layout with two column keys that its row only inherits.\<close>

definition inherited_keys :: TableLayout where
  "inherited_keys =
     \<lparr>columns = [\<lparr>key = ''name'', label = ''Name''\<rparr>,
                 \<lparr>key = ''constructor'', label = ''Constructor''\<rparr>,
                 \<lparr>key = ''__proto__'', label = ''Prototype''\<rparr>],
      rows = [[(''name'', CellString ''A. Turing'')]]\<rparr>"

text \<open>
  Two components that are no values of the union: one with two layouts, one whose only
  layout does not match its type; and a reply that carries both.
\<close>

definition two_layouts :: jsval where
  "two_layouts =
     JObj [(''component_type'', JStr ''text''),
           (''text_layout'', JObj [(''content'', JStr ''Nobody teaches Mathematics.'')]),
           (''table_layout'', TableLayout_json no_faculty)]"

definition mismatched_layout :: jsval where
  "mismatched_layout =
     JObj [(''component_type'', JStr ''table''),
           (''text_layout'', JObj [(''content'', JStr ''Nobody teaches Mathematics.'')])]"

definition two_layouts_reply :: string where
  "two_layouts_reply =
     JSON_stringify
       (JObj [(''intro_message'', JStr ''Here is what I found.''),
              (''content'',
               JObj [(''structured'',
                      JArr [JObj [(''message'', JStr ''Faculty''),
                                  (''components'', JArr [two_layouts, mismatched_layout])]]),
                     (''rawtext'', JStr [])])])"

section \<open>Properties of the ingestion jobs\<close>

subsection \<open>The states of a run\<close>

lemmas run_defs = extraction_actions_def
  actions_before_request_def actions_after_request_def catch_actions_def actions_on_response_def
  completion_actions_def begin_extraction_def newJob_def updateJobStatus_def the_job_def
  updated_job_def spread_updates_def no_updates_def overwrite_def overwrite_opt_def

lemmas step_defs = extraction_trace_def extraction_actions_def
  actions_before_request_def actions_after_request_def catch_actions_def actions_on_response_def
  completion_actions_def begin_extraction_def active_steps_def updateStepStatus_def
  markActiveStepError_def initial_steps_def

lemma updateStepStatus_jobs [simp]: "jobs (updateStepStatus i st s) = jobs s"
  by (simp add: updateStepStatus_def)

lemma markActiveStepError_jobs [simp]: "jobs (markActiveStepError s) = jobs s"
  by (simp add: markActiveStepError_def)

lemma updateJobStatus_steps [simp]:
  "extractionSteps (updateJobStatus j st p u s) = extractionSteps s"
  by (simp add: updateJobStatus_def)

lemma states_after_nonempty: "states_after f as s \<noteq> []"
  by (cases as) auto

lemma last_states_after: "last (states_after f as s) = fold f as s"
  by (induction as arbitrary: s) (auto simp: states_after_nonempty)

lemma job_trace_last:
  "last (job_trace files c outcome s) = the_job (startExtraction files c outcome s)"
  by (simp add: job_trace_def extraction_trace_def startExtraction_def last_map
      states_after_nonempty last_states_after)

lemma pairs_fst: "map status js = map fst (map (\<lambda>j. (status j, progress j)) js)"
  by simp

lemma pairs_snd: "map progress js = map snd (map (\<lambda>j. (status j, progress j)) js)"
  by simp

text \<open>The status and progress of the job in each state of a run, for each outcome.\<close>

lemma job_trace_Rejected:
  "map (\<lambda>j. (status j, progress j)) (job_trace files c (Rejected e) s) =
     [(Queued, 0), (Queued, 0), (Extracting, 10), (Extracting, 10), (Extracting, 10),
      (Extracting, 25), (Extracting, 25), (Extracting, 25), (Extracting, 40),
      (Extracting, 40), (Extracting, 40), (Extracting, 60), (Extracting, 60),
      (Extracting, 60), (Inserting, 75), (Inserting, 75), (Failed, 100)]"
  by (simp add: job_trace_def extraction_trace_def run_defs)

lemma job_trace_Malformed:
  "map (\<lambda>j. (status j, progress j)) (job_trace files c (ResolvedMalformed e) s) =
     [(Queued, 0), (Queued, 0), (Extracting, 10), (Extracting, 10), (Extracting, 10),
      (Extracting, 25), (Extracting, 25), (Extracting, 25), (Extracting, 40),
      (Extracting, 40), (Extracting, 40), (Extracting, 60), (Extracting, 60),
      (Extracting, 60), (Inserting, 75), (Inserting, 75), (Inserting, 75), (Inserting, 90),
      (Inserting, 90), (Failed, 100)]"
  by (simp add: job_trace_def extraction_trace_def run_defs)

lemma job_trace_Resolved:
  "map (\<lambda>j. (status j, progress j)) (job_trace files c (Resolved d) s) =
     [(Queued, 0), (Queued, 0), (Extracting, 10), (Extracting, 10), (Extracting, 10),
      (Extracting, 25), (Extracting, 25), (Extracting, 25), (Extracting, 40),
      (Extracting, 40), (Extracting, 40), (Extracting, 60), (Extracting, 60),
      (Extracting, 60), (Inserting, 75), (Inserting, 75), (Inserting, 75), (Inserting, 90),
      (Inserting, 90), (if data_success d then Completed else Failed, 100)]"
  by (simp add: job_trace_def extraction_trace_def run_defs Let_def)

text \<open>The active steps in each state of a run.\<close>

lemma upt6: "[0..<6] = [0, 1, 2, 3, 4, 5]"
  by (simp add: upt_rec)

lemma steps_trace_Rejected:
  "map active_steps (extraction_trace files c (Rejected e) s) =
     [[], [''scan''], [''scan''], [], [''parse''], [''parse''], [], [''validate''],
      [''validate''], [], [''transform''], [''transform''], [], [''insert''], [''insert''],
      [], []]"
  by (simp add: step_defs upt6)

lemma steps_trace_Resolved:
  "map active_steps (extraction_trace files c (Resolved d) s) =
     [[], [''scan''], [''scan''], [], [''parse''], [''parse''], [], [''validate''],
      [''validate''], [], [''transform''], [''transform''], [], [''insert''], [''insert''],
      [], [''verify''], [''verify''], [], []]"
  by (simp add: Let_def step_defs upt6)

lemma steps_trace_Malformed:
  "map active_steps (extraction_trace files c (ResolvedMalformed e) s) =
     [[], [''scan''], [''scan''], [], [''parse''], [''parse''], [], [''validate''],
      [''validate''], [], [''transform''], [''transform''], [], [''insert''], [''insert''],
      [], [''verify''], [''verify''], [], []]"
  by (simp add: step_defs upt6)

subsection \<open>The totals of a response\<close>

lemma set_fold_set_add: "set (fold set_add xs ys) = set ys \<union> set xs"
  by (induction xs arbitrary: ys) (auto simp: set_add_def)

lemma distinct_fold_set_add: "distinct ys \<Longrightarrow> distinct (fold set_add xs ys)"
  by (induction xs arbitrary: ys) (auto simp: set_add_def)

lemma fold_count_query:
  "fold count_query pqs t =
     \<lparr>totalRowsExtracted = totalRowsExtracted t + sum_list (map values_length pqs),
      totalRowsInserted = totalRowsInserted t + sum_list (map values_length pqs),
      tablesSet = fold set_add (map table_name pqs) (tablesSet t)\<rparr>"
  by (induction pqs arbitrary: t) (simp_all add: count_query_def)

lemma count_result_eq: "count_result r t = fold count_query (queries_in r) t"
  by (simp add: count_result_def queries_in_def split: option.splits)

lemma fold_count_result:
  "fold count_result rs t = fold count_query (concat (map queries_in rs)) t"
  by (induction rs arbitrary: t) (simp_all add: count_result_eq)

lemma extract_totals_eq:
  "extract_totals d =
     \<lparr>totalRowsExtracted = total_value_rows d, totalRowsInserted = total_value_rows d,
      tablesSet = fold set_add (map table_name (queries_of d)) []\<rparr>"
proof -
  have q: "concat (map queries_in (successfulResults d)) = queries_of d"
    by (simp add: queries_of_def successfulResults_def)
  show ?thesis
    by (simp add: extract_totals_def fold_count_result fold_count_query q total_value_rows_def)
qed

lemma final_job_Resolved:
  "the_job (startExtraction files c (Resolved d) s) =
     (if data_success d
      then (newJob files c)\<lparr>status := Completed, progress := 100,
             rowsExtracted := totalRowsExtracted (extract_totals d),
             rowsInserted := totalRowsInserted (extract_totals d),
             tablesAffected := tablesSet (extract_totals d),
             completedAt := Some (finished_string c)\<rparr>
      else (newJob files c)\<lparr>status := Failed, progress := 100,
             rowsExtracted := totalRowsExtracted (extract_totals d),
             rowsInserted := totalRowsInserted (extract_totals d),
             tablesAffected := tablesSet (extract_totals d),
             error := Some (or_else (data_error d) ''Extraction failed'')\<rparr>)"
  by (simp add: startExtraction_def run_defs Let_def)

lemma queries_of_courses_response:
  "queries_of courses_response =
     [\<lparr>table_name = ''courses'',
       pq_values = Some [[''1'', ''Algebra''], [''2'', ''Physics''], [''3'', ''History'']]\<rparr>]"
  by (simp add: queries_of_def queries_in_def courses_response_def)

lemma queries_of_partial_failure:
  "queries_of partial_failure =
     [\<lparr>table_name = ''courses'', pq_values = Some [[''1'', ''Algebra'']]\<rparr>]"
  by (simp add: queries_of_def queries_in_def partial_failure_def)

subsection \<open>Progress and terminal status\<close>

text \<open>
  Claim C3. In every run of \<^verbatim>\<open>startExtraction\<close>, whatever the outcome of the request (the
  failure paths included), the progress of the job never decreases from one state to the
  next; the status of the job after the last update is terminal (completed or failed); no
  earlier state has a terminal status, so that no update is applied to the job after it
  has reached its terminal status; and the job the run leaves in the list is the one of
  the last state.
\<close>

theorem progress_monotone_one_terminal:
  "sorted (map progress (job_trace files c outcome s)) \<and>
   terminal (last (map status (job_trace files c outcome s))) \<and>
   (\<forall>st \<in> set (butlast (map status (job_trace files c outcome s))). \<not> terminal st) \<and>
   the_job (startExtraction files c outcome s) = last (job_trace files c outcome s)"
proof (cases outcome)
  case (Rejected e)
  show ?thesis
    unfolding Rejected pairs_fst pairs_snd job_trace_Rejected
    by (simp add: terminal_def job_trace_last)
next
  case (Resolved d)
  show ?thesis
    unfolding Resolved pairs_fst pairs_snd job_trace_Resolved
    by (simp add: terminal_def job_trace_last)
next
  case (ResolvedMalformed e)
  show ?thesis
    unfolding ResolvedMalformed pairs_fst pairs_snd job_trace_Malformed
    by (simp add: terminal_def job_trace_last)
qed

theorem progress_monotone_one_terminal_witness:
  "sorted (map progress (job_trace courses_csv example_clock
      (Rejected network_error :: unit axios_result) initial_state)) \<and>
   last (map status (job_trace courses_csv example_clock
      (Rejected network_error :: unit axios_result) initial_state)) = Failed \<and>
   Inserting \<in> set (butlast (map status (job_trace courses_csv example_clock
      (Rejected network_error :: unit axios_result) initial_state))) \<and>
   \<not> terminal Inserting"
  using progress_monotone_one_terminal
    [of courses_csv example_clock "Rejected network_error :: unit axios_result" initial_state]
  unfolding pairs_fst job_trace_Rejected by (simp add: terminal_def)

subsection \<open>Progress at a failure\<close>

text \<open>
  Claim C4, as stated, fails. When the request is rejected, the job is at progress 75 in
  the state before the failure is recorded, and the update that sets the status to failed
  sets the progress to 100: the progress is not frozen at the value it had when the stage
  failed. These are the last two states of the job in that run.
\<close>

theorem progress_jumps_on_failure_counterexample:
  "map status (drop 15 (job_trace courses_csv example_clock
      (Rejected network_error :: unit axios_result) initial_state)) = [Inserting, Failed] \<and>
   map progress (drop 15 (job_trace courses_csv example_clock
      (Rejected network_error :: unit axios_result) initial_state)) = [75, 100]"
  unfolding drop_map [symmetric] pairs_fst pairs_snd job_trace_Rejected by simp

text \<open>
  Claim C4, amended. In every run in which a stage fails (the request is rejected, the body
  cannot be processed, or the body does not report overall success), the last update sets
  the status of the job to failed and its progress to 100, from a progress of 75 or 90; no
  earlier state is failed, and no update follows, so the progress stays at 100.
\<close>

theorem failure_sets_progress_100:
  assumes "request_fails outcome"
  shows "last (map status (job_trace files c outcome s)) = Failed \<and>
         last (map progress (job_trace files c outcome s)) = 100 \<and>
         last (butlast (map progress (job_trace files c outcome s))) \<in> {75, 90} \<and>
         (\<forall>st \<in> set (butlast (map status (job_trace files c outcome s))). st \<noteq> Failed) \<and>
         the_job (startExtraction files c outcome s) = last (job_trace files c outcome s)"
proof (cases outcome)
  case (Rejected e)
  show ?thesis
    unfolding Rejected pairs_fst pairs_snd job_trace_Rejected
    by (simp add: job_trace_last)
next
  case (Resolved d)
  with assms have "\<not> data_success d"
    by (simp add: request_fails_def)
  then show ?thesis
    unfolding Resolved pairs_fst pairs_snd job_trace_Resolved
    by (simp add: job_trace_last)
next
  case (ResolvedMalformed e)
  show ?thesis
    unfolding ResolvedMalformed pairs_fst pairs_snd job_trace_Malformed
    by (simp add: job_trace_last)
qed

theorem failure_sets_progress_100_witness:
  "request_fails (Resolved partial_failure) \<and>
   last (map status (job_trace courses_csv example_clock (Resolved partial_failure)
      initial_state)) = Failed \<and>
   last (map progress (job_trace courses_csv example_clock (Resolved partial_failure)
      initial_state)) = 100 \<and>
   last (butlast (map progress (job_trace courses_csv example_clock (Resolved partial_failure)
      initial_state))) = 90 \<and>
   Inserting \<in> set (butlast (map status (job_trace courses_csv example_clock
      (Resolved partial_failure) initial_state)))"
proof -
  have h: "request_fails (Resolved partial_failure)"
    by (simp add: request_fails_def partial_failure_def)
  show ?thesis
    using h failure_sets_progress_100 [OF h, of courses_csv example_clock initial_state]
    unfolding pairs_fst pairs_snd job_trace_Resolved by simp
qed

subsection \<open>The order of the stages\<close>

text \<open>The job of a run is not touched by the events of other runs.\<close>

lemma id_job_updated_job: "upd_id u = None \<Longrightarrow> id_job (updated_job j st p u) = id_job j"
  by (simp add: updated_job_def spread_updates_def overwrite_def)

lemma find_map_other_id:
  assumes "\<And>j. id_job (f j) = id_job j" and "\<And>j. id_job j = jid \<Longrightarrow> f j = j"
  shows "find (\<lambda>j. id_job j = jid) (map f xs) = find (\<lambda>j. id_job j = jid) xs"
  by (induction xs) (simp_all add: assms)

lemma find_map_update:
  assumes "\<And>j. id_job (g j) = id_job j"
  shows "find (\<lambda>j. id_job j = jid) (map (\<lambda>job. if id_job job = jid then g job else job) xs) =
         map_option g (find (\<lambda>j. id_job j = jid) xs)"
  by (induction xs) (simp_all add: assms)

lemma job_of_run_action_same:
  "keeps_id a \<Longrightarrow> job_of jid (run_action jid a s) = map_option (job_step a) (job_of jid s)"
proof (cases a)
  case (JobStatus st p u)
  assume "keeps_id a"
  with JobStatus have u: "upd_id u = None" by simp
  have "find (\<lambda>j. id_job j = jid)
          (map (\<lambda>job. if id_job job = jid then updated_job job st p u else job) (jobs s)) =
        map_option (\<lambda>job. updated_job job st p u) (find (\<lambda>j. id_job j = jid) (jobs s))"
    by (rule find_map_update) (simp add: id_job_updated_job u)
  then show ?thesis
    using JobStatus by (simp add: job_of_def updateJobStatus_def cong: map_option_cong)
next
  case (StepStatus i st)
  then show ?thesis by (cases "job_of jid s") (simp_all add: job_of_def)
next
  case MarkActiveStepError
  then show ?thesis by (cases "job_of jid s") (simp_all add: job_of_def)
qed

lemma job_of_run_action_other:
  "keeps_id a \<Longrightarrow> jid' \<noteq> jid \<Longrightarrow> job_of jid (run_action jid' a s) = job_of jid s"
proof (cases a)
  case (JobStatus st p u)
  assume "keeps_id a" and ne: "jid' \<noteq> jid"
  with JobStatus have u: "upd_id u = None" by simp
  have "find (\<lambda>j. id_job j = jid)
          (map (\<lambda>job. if id_job job = jid' then updated_job job st p u else job) (jobs s)) =
        find (\<lambda>j. id_job j = jid) (jobs s)"
    by (rule find_map_other_id) (use ne in \<open>auto simp: id_job_updated_job u\<close>)
  then show ?thesis
    using JobStatus by (simp add: job_of_def updateJobStatus_def)
qed (simp_all add: job_of_def)

lemma job_of_fold_other:
  "\<forall>a \<in> set as. keeps_id a \<Longrightarrow> jid' \<noteq> jid \<Longrightarrow>
   job_of jid (fold (run_action jid') as s) = job_of jid s"
  by (induction as arbitrary: s) (simp_all add: job_of_run_action_other)

lemma keeps_id_before: "\<forall>a \<in> set actions_before_request. keeps_id a"
  by (simp add: actions_before_request_def no_updates_def)

lemma keeps_id_after: "\<forall>a \<in> set (actions_after_request outcome c). keeps_id a"
  by (cases outcome)
     (simp_all add: actions_after_request_def catch_actions_def actions_on_response_def
        completion_actions_def no_updates_def Let_def)

lemma job_of_begin_other:
  "id_job nj \<noteq> jid \<Longrightarrow> job_of jid (begin_extraction nj s) = job_of jid s"
  by (simp add: job_of_def begin_extraction_def)

lemma job_of_begin:
  "job_of (jobId_of c) (begin_extraction (newJob files c) s) = Some (newJob files c)"
  by (simp add: job_of_def begin_extraction_def newJob_def)

lemma job_of_run_event:
  "other_run jid e \<Longrightarrow> job_of jid (run_event e s) = job_of jid s"
proof (cases e)
  case (RunStarts files c)
  assume "other_run jid e"
  with RunStarts have ne: "jobId_of c \<noteq> jid" by simp
  then have "id_job (newJob files c) \<noteq> jid" by (simp add: newJob_def)
  then show ?thesis
    using RunStarts ne by (simp add: job_of_fold_other keeps_id_before job_of_begin_other)
next
  case (RunResumes c outcome)
  assume "other_run jid e"
  with RunResumes have "jobId_of c \<noteq> jid" by simp
  then show ?thesis
    using RunResumes by (simp add: job_of_fold_other keeps_id_after)
next
  case TimerFires
  then show ?thesis by (simp add: job_of_def after_timeout_def)
qed

lemma job_of_states_after_events:
  "\<forall>e \<in> set es. other_run jid e \<Longrightarrow>
   map (job_of jid) (states_after run_event es s) = replicate (Suc (length es)) (job_of jid s)"
  by (induction es arbitrary: s) (simp_all add: job_of_run_event)

lemma job_of_fold_events:
  "\<forall>e \<in> set es. other_run jid e \<Longrightarrow> job_of jid (fold run_event es s) = job_of jid s"
  by (induction es arbitrary: s) (simp_all add: job_of_run_event)

lemma job_of_states_after_actions:
  "\<forall>a \<in> set as. keeps_id a \<Longrightarrow> job_of jid s = Some j \<Longrightarrow>
   map (job_of jid) (states_after (run_action jid) as s) = map Some (states_after job_step as j)"
  by (induction as arbitrary: s j) (simp_all add: job_of_run_action_same)

lemma job_of_fold_actions:
  "\<forall>a \<in> set as. keeps_id a \<Longrightarrow> job_of jid s = Some j \<Longrightarrow>
   job_of jid (fold (run_action jid) as s) = Some (fold job_step as j)"
  by (induction as arbitrary: s j) (simp_all add: job_of_run_action_same)

text \<open>The statuses of the job over a run with events at its request.\<close>

lemma remdups_adj_replicate_front:
  "remdups_adj (x # replicate n x @ ys) = remdups_adj (x # ys)"
  by (induction n) simp_all

lemma states_after_hd: "states_after f as s = s # tl (states_after f as s)"
  by (cases as) simp_all

lemma states_after_append:
  "states_after f (as @ bs) s = states_after f as s @ tl (states_after f bs (fold f as s))"
proof (induction as arbitrary: s)
  case Nil
  show ?case using states_after_hd [of f bs s] by simp
next
  case (Cons a as)
  then show ?case by simp
qed

lemma interleaved_trace_no_events:
  "interleaved_trace files c outcome [] s = extraction_trace files c outcome s"
  by (simp add: interleaved_trace_def extraction_trace_def extraction_actions_def
      states_after_append state_at_request_def)

lemma statuses_before:
  "map status (states_after job_step actions_before_request (newJob files c)) =
     [Queued, Queued, Extracting, Extracting, Extracting, Extracting, Extracting, Extracting,
      Extracting, Extracting, Extracting, Extracting, Extracting, Extracting, Inserting]"
  by (simp add: actions_before_request_def newJob_def updated_job_def spread_updates_def
      no_updates_def overwrite_def overwrite_opt_def)

lemma status_at_request:
  "status (fold job_step actions_before_request j) = Inserting"
  by (simp add: actions_before_request_def updated_job_def spread_updates_def
      no_updates_def overwrite_def overwrite_opt_def)

lemma statuses_after:
  "status j = Inserting \<Longrightarrow>
   map status (tl (states_after job_step (actions_after_request outcome c) j)) =
     (case outcome of
        Rejected e \<Rightarrow> [Inserting, Failed]
      | Resolved d \<Rightarrow> [Inserting, Inserting, Inserting, Inserting,
                       if data_success d then Completed else Failed]
      | ResolvedMalformed e \<Rightarrow> [Inserting, Inserting, Inserting, Inserting, Failed])"
  by (cases outcome)
     (simp_all add: actions_after_request_def catch_actions_def actions_on_response_def
        completion_actions_def updated_job_def spread_updates_def no_updates_def
        overwrite_def overwrite_opt_def Let_def)

lemma job_status_trace_eq:
  assumes "\<forall>e \<in> set events. other_run (jobId_of c) e"
  shows "job_status_trace files c outcome events s =
     map Some
       ([Queued, Queued, Extracting, Extracting, Extracting, Extracting, Extracting, Extracting,
         Extracting, Extracting, Extracting, Extracting, Extracting, Extracting, Inserting] @
        replicate (length events) Inserting @
        (case outcome of
           Rejected e \<Rightarrow> [Inserting, Failed]
         | Resolved d \<Rightarrow> [Inserting, Inserting, Inserting, Inserting,
                          if data_success d then Completed else Failed]
         | ResolvedMalformed e \<Rightarrow> [Inserting, Inserting, Inserting, Inserting, Failed]))"
proof -
  let ?jid = "jobId_of c"
  let ?nj = "newJob files c"
  let ?s0 = "begin_extraction ?nj s"
  let ?s1 = "state_at_request files c s"
  let ?s2 = "fold run_event events ?s1"
  let ?j1 = "fold job_step actions_before_request ?nj"
  have s1: "job_of ?jid ?s1 = Some ?j1"
    unfolding state_at_request_def
    by (rule job_of_fold_actions [OF keeps_id_before job_of_begin])
  have s2: "job_of ?jid ?s2 = Some ?j1"
    using assms s1 by (simp add: job_of_fold_events)
  have A: "map (job_of ?jid) (states_after (run_action ?jid) actions_before_request ?s0) =
           map Some (states_after job_step actions_before_request ?nj)"
    by (rule job_of_states_after_actions [OF keeps_id_before job_of_begin])
  have B: "map (job_of ?jid) (tl (states_after run_event events ?s1)) =
           replicate (length events) (Some ?j1)"
    using assms by (simp add: map_tl job_of_states_after_events s1)
  have C: "map (job_of ?jid)
             (tl (states_after (run_action ?jid) (actions_after_request outcome c) ?s2)) =
           map Some (tl (states_after job_step (actions_after_request outcome c) ?j1))"
    by (simp add: map_tl job_of_states_after_actions [OF keeps_id_after s2])
  have "job_status_trace files c outcome events s =
        map (map_option status)
          (map (job_of ?jid) (states_after (run_action ?jid) actions_before_request ?s0) @
           map (job_of ?jid) (tl (states_after run_event events ?s1)) @
           map (job_of ?jid)
             (tl (states_after (run_action ?jid) (actions_after_request outcome c) ?s2)))"
    by (simp add: job_status_trace_def interleaved_trace_def)
  also have "\<dots> =
        map Some (map status (states_after job_step actions_before_request ?nj)) @
        replicate (length events) (Some (status ?j1)) @
        map Some (map status (tl (states_after job_step (actions_after_request outcome c) ?j1)))"
    unfolding A B C by (simp add: map_replicate)
  finally show ?thesis
    by (simp add: statuses_before status_at_request statuses_after map_replicate)
qed

text \<open>The steps shown when the timer of an earlier run fires during the request.\<close>

lemma steps_trace_timer:
  "map active_steps (interleaved_trace files c (Resolved d) [TimerFires] s) =
     [[], [''scan''], [''scan''], [], [''parse''], [''parse''], [], [''validate''],
      [''validate''], [], [''transform''], [''transform''], [], [''insert''], [''insert''],
      [], [], [], [], [], []]"
  by (simp add: interleaved_trace_def state_at_request_def step_defs upt6 after_timeout_def
      Let_def)

lemma digit_chars:
  "digit_char 0 = CHR ''0''" "digit_char 1 = CHR ''1''" "digit_char 2 = CHR ''2''"
  "digit_char 3 = CHR ''3''" "digit_char 4 = CHR ''4''" "digit_char 5 = CHR ''5''"
  "digit_char 6 = CHR ''6''" "digit_char 7 = CHR ''7''" "digit_char 8 = CHR ''8''"
  "digit_char 9 = CHR ''9''" "digit_char (Suc 0) = CHR ''1''"
  by code_simp+

lemma jobId_of_example_clock: "jobId_of example_clock = ''job-1700000000000''"
  by (simp add: jobId_of_def example_clock_def number_toString.simps digit_chars)

lemma jobId_of_later_clock: "jobId_of later_clock = ''job-1700000000500''"
  by (simp add: jobId_of_def later_clock_def number_toString.simps digit_chars)

lemma other_job_ids: "jobId_of later_clock \<noteq> jobId_of example_clock"
  by (simp add: jobId_of_example_clock jobId_of_later_clock)

text \<open>
  Claim C5, as stated, fails. An upload fails, and within three seconds the user uploads
  again. While the second run waits for its response, the timer of the first run empties
  the step list that all runs share; the updates of the verify step then find no step,
  and the job of the second run ends completed although verify was never active.
\<close>

theorem verify_skipped_counterexample:
  "last (job_status_trace courses_csv example_clock (Resolved courses_response) [TimerFires]
      state_after_failed_run) = Some Completed \<and>
   remdups_adj (concat (map active_steps
      (interleaved_trace courses_csv example_clock (Resolved courses_response) [TimerFires]
         state_after_failed_run))) =
     [''scan'', ''parse'', ''validate'', ''transform'', ''insert'']"
proof -
  have "\<forall>e \<in> set [TimerFires :: string list event]. other_run (jobId_of example_clock) e"
    by simp
  from job_status_trace_eq [OF this]
  show ?thesis
    unfolding steps_trace_timer by (simp add: courses_response_def)
qed

text \<open>
  Claim C5, amended. The stages scan, parse, validate, transform, insert and verify are
  the entries of the one step list that all runs share; they are no values of the status
  of a job. In every run, whatever other runs and timers do while it waits for its
  response, the status of its job takes only declared values and reads, with repetitions
  dropped, queued, extracting, inserting and then completed or failed, never going back.
  In a run during whose request nothing else happens, the steps become active one at a
  time in the declared order, none revisited: all six when the request resolves, and the
  first five, with the job failing from the insert step, when it is rejected.
\<close>

theorem job_status_in_order:
  assumes "\<forall>e \<in> set events. other_run (jobId_of c) e"
  shows "remdups_adj (job_status_trace files c outcome events s) \<in>
           {[Some Queued, Some Extracting, Some Inserting, Some Completed],
            [Some Queued, Some Extracting, Some Inserting, Some Failed]} \<and>
         remdups_adj (concat (map active_steps (interleaved_trace files c outcome [] s))) =
           (case outcome of
              Rejected e \<Rightarrow> [''scan'', ''parse'', ''validate'', ''transform'', ''insert'']
            | Resolved d \<Rightarrow>
                [''scan'', ''parse'', ''validate'', ''transform'', ''insert'', ''verify'']
            | ResolvedMalformed e \<Rightarrow>
                [''scan'', ''parse'', ''validate'', ''transform'', ''insert'', ''verify''])"
proof (cases outcome)
  case (Rejected e)
  show ?thesis
    unfolding job_status_trace_eq [OF assms] interleaved_trace_no_events Rejected
      steps_trace_Rejected
    by (simp add: remdups_adj_replicate_front map_replicate)
next
  case (Resolved d)
  show ?thesis
    unfolding job_status_trace_eq [OF assms] interleaved_trace_no_events Resolved
      steps_trace_Resolved
    by (simp add: remdups_adj_replicate_front map_replicate)
next
  case (ResolvedMalformed e)
  show ?thesis
    unfolding job_status_trace_eq [OF assms] interleaved_trace_no_events ResolvedMalformed
      steps_trace_Malformed
    by (simp add: remdups_adj_replicate_front map_replicate)
qed

theorem job_status_in_order_witness:
  "other_run (jobId_of example_clock) (TimerFires :: string list event) \<and>
   other_run (jobId_of example_clock) (RunStarts courses_csv later_clock :: string list event) \<and>
   other_run (jobId_of example_clock)
     (RunResumes later_clock (Resolved partial_failure)) \<and>
   remdups_adj (job_status_trace courses_csv example_clock (Resolved courses_response)
      [TimerFires, RunStarts courses_csv later_clock,
       RunResumes later_clock (Resolved partial_failure)] state_after_failed_run) =
     [Some Queued, Some Extracting, Some Inserting, Some Completed] \<and>
   remdups_adj (concat (map active_steps
      (interleaved_trace courses_csv example_clock (Resolved courses_response) []
         state_after_failed_run))) =
     [''scan'', ''parse'', ''validate'', ''transform'', ''insert'', ''verify'']"
proof -
  have h: "\<forall>e \<in> set [TimerFires, RunStarts courses_csv later_clock,
                        RunResumes later_clock (Resolved partial_failure)].
             other_run (jobId_of example_clock) e"
    by (simp add: other_job_ids)
  have eq: "remdups_adj (job_status_trace courses_csv example_clock (Resolved courses_response)
      [TimerFires, RunStarts courses_csv later_clock,
       RunResumes later_clock (Resolved partial_failure)] state_after_failed_run) =
     [Some Queued, Some Extracting, Some Inserting, Some Completed]"
    unfolding job_status_trace_eq [OF h] by (simp add: courses_response_def)
  show ?thesis
    using job_status_in_order [OF h, of courses_csv "Resolved courses_response"
        state_after_failed_run] eq
    by (simp add: other_job_ids)
qed

subsection \<open>The result of a successful upload\<close>

text \<open>
  Claim C6. When the body of the response reports overall success, the job ends completed
  at progress 100, its counters \<^verbatim>\<open>rowsExtracted\<close> and \<^verbatim>\<open>rowsInserted\<close> both equal the number
  of value rows of the parsed queries of the successful per-file results, and its
  \<^verbatim>\<open>tablesAffected\<close> lists, without repetition, exactly the table names of those queries.
  The witness is the upload of a CSV file of three rows for the table \<^verbatim>\<open>courses\<close>.
\<close>

theorem successful_upload_totals:
  assumes "data_success d"
  shows "status (the_job (startExtraction files c (Resolved d) s)) = Completed \<and>
         progress (the_job (startExtraction files c (Resolved d) s)) = 100 \<and>
         rowsExtracted (the_job (startExtraction files c (Resolved d) s)) = total_value_rows d \<and>
         rowsInserted (the_job (startExtraction files c (Resolved d) s)) = total_value_rows d \<and>
         set (tablesAffected (the_job (startExtraction files c (Resolved d) s))) = table_names d \<and>
         distinct (tablesAffected (the_job (startExtraction files c (Resolved d) s)))"
  using assms
  by (simp add: final_job_Resolved extract_totals_eq set_fold_set_add distinct_fold_set_add
      table_names_def)

theorem successful_upload_totals_witness:
  "data_success courses_response \<and>
   status (the_job (startExtraction courses_csv example_clock (Resolved courses_response)
      initial_state)) = Completed \<and>
   progress (the_job (startExtraction courses_csv example_clock (Resolved courses_response)
      initial_state)) = 100 \<and>
   rowsExtracted (the_job (startExtraction courses_csv example_clock (Resolved courses_response)
      initial_state)) = 3 \<and>
   rowsInserted (the_job (startExtraction courses_csv example_clock (Resolved courses_response)
      initial_state)) = 3 \<and>
   set (tablesAffected (the_job (startExtraction courses_csv example_clock
      (Resolved courses_response) initial_state))) = {''courses''}"
proof -
  have h: "data_success courses_response"
    by (simp add: courses_response_def)
  show ?thesis
    using h successful_upload_totals [OF h, of courses_csv example_clock initial_state]
    by (simp add: total_value_rows_def table_names_def queries_of_courses_response
        values_length_def)
qed

subsection \<open>Completed or failed\<close>

lemma queries_of_completed_with_failed_file:
  "queries_of completed_with_failed_file =
     [\<lparr>table_name = ''courses'', pq_values = Some [[''1'', ''Algebra'']]\<rparr>]"
  by (simp add: queries_of_def queries_in_def completed_with_failed_file_def)

lemma error_newJob: "error (newJob files c) = None"
  by (simp add: newJob_def)

text \<open>
  Claim C7, as stated, fails in both of its halves. For a body whose overall flag is unset
  and of whose two files one was inserted with one row, the job ends failed although one
  row succeeded. For the same two files with the overall flag set, the job ends completed
  and carries no error at all, although one of its files failed: no per-item error is
  accumulated.
\<close>

theorem failed_with_rows_completed_without_errors_counterexample:
  "status (the_job (startExtraction courses_csv example_clock (Resolved partial_failure)
      initial_state)) = Failed \<and>
   rowsInserted (the_job (startExtraction courses_csv example_clock (Resolved partial_failure)
      initial_state)) = 1 \<and>
   total_value_rows partial_failure = 1 \<and>
   data_results completed_with_failed_file =
     Some [\<lparr>success = True,
            parsed_queries = Some [\<lparr>table_name = ''courses'',
                                    pq_values = Some [[''1'', ''Algebra'']]\<rparr>]\<rparr>,
           \<lparr>success = False, parsed_queries = None\<rparr>] \<and>
   status (the_job (startExtraction courses_csv example_clock
      (Resolved completed_with_failed_file) initial_state)) = Completed \<and>
   error (the_job (startExtraction courses_csv example_clock
      (Resolved completed_with_failed_file) initial_state)) = None"
proof -
  have f: "\<not> data_success partial_failure"
    by (simp add: partial_failure_def)
  have t: "data_success completed_with_failed_file"
    by (simp add: completed_with_failed_file_def)
  have r: "data_results completed_with_failed_file =
     Some [\<lparr>success = True,
            parsed_queries = Some [\<lparr>table_name = ''courses'',
                                    pq_values = Some [[''1'', ''Algebra'']]\<rparr>]\<rparr>,
           \<lparr>success = False, parsed_queries = None\<rparr>]"
    by (simp add: completed_with_failed_file_def)
  show ?thesis
    by (simp add: final_job_Resolved extract_totals_eq f t r total_value_rows_def
        queries_of_partial_failure values_length_def error_newJob)
qed

text \<open>
  Claim C7, amended. For every response with a body, the job ends completed when the body's
  overall success flag is set and failed when it is not, whatever the number of rows that
  succeeded. In both cases the counters of the job record the rows of all the successful
  files, so a file that failed does not keep its siblings from being counted. Errors of
  single files are not accumulated: a completed job carries no error, and a failed job
  carries the one error string of the body, or \<^verbatim>\<open>Extraction failed\<close> when the body has none.
\<close>

theorem status_and_error_follow_success_flag:
  "status (the_job (startExtraction files c (Resolved d) s)) =
     (if data_success d then Completed else Failed) \<and>
   rowsExtracted (the_job (startExtraction files c (Resolved d) s)) = total_value_rows d \<and>
   rowsInserted (the_job (startExtraction files c (Resolved d) s)) = total_value_rows d \<and>
   error (the_job (startExtraction files c (Resolved d) s)) =
     (if data_success d then None else Some (or_else (data_error d) ''Extraction failed''))"
  by (simp add: final_job_Resolved extract_totals_eq error_newJob)

theorem status_and_error_follow_success_flag_witness:
  "status (the_job (startExtraction courses_csv example_clock (Resolved partial_failure)
      initial_state)) = Failed \<and>
   rowsInserted (the_job (startExtraction courses_csv example_clock (Resolved partial_failure)
      initial_state)) = 1 \<and>
   error (the_job (startExtraction courses_csv example_clock (Resolved partial_failure)
      initial_state)) = Some ''1 file(s) failed'' \<and>
   status (the_job (startExtraction courses_csv example_clock
      (Resolved completed_with_failed_file) initial_state)) = Completed \<and>
   rowsInserted (the_job (startExtraction courses_csv example_clock
      (Resolved completed_with_failed_file) initial_state)) = 1 \<and>
   error (the_job (startExtraction courses_csv example_clock
      (Resolved completed_with_failed_file) initial_state)) = None"
proof -
  have f: "\<not> data_success partial_failure"
    "data_error partial_failure = Some ''1 file(s) failed''"
    by (simp_all add: partial_failure_def)
  have t: "data_success completed_with_failed_file"
    by (simp add: completed_with_failed_file_def)
  show ?thesis
    using status_and_error_follow_success_flag
        [of courses_csv example_clock partial_failure initial_state]
      status_and_error_follow_success_flag
        [of courses_csv example_clock completed_with_failed_file initial_state]
    by (simp add: f t total_value_rows_def queries_of_partial_failure
        queries_of_completed_with_failed_file values_length_def or_else_def)
qed

subsection \<open>The frame of updateJobStatus\<close>

text \<open>
  Claim C9. A call of \<^verbatim>\<open>updateJobStatus\<close> keeps the length and the order of the job list; at
  every position the job is replaced by its update when its id is the given one and is
  left as it is, with all its fields, when it is not; the active job is updated under the
  same condition and stays absent when it is absent; the extraction steps are untouched.
\<close>

theorem updateJobStatus_frame:
  "length (jobs (updateJobStatus jobId st p u s)) = length (jobs s) \<and>
   (\<forall>i < length (jobs s).
      jobs (updateJobStatus jobId st p u s) ! i =
        (if id_job (jobs s ! i) = jobId then updated_job (jobs s ! i) st p u else jobs s ! i)) \<and>
   (\<forall>a. activeJob s = Some a \<longrightarrow>
      activeJob (updateJobStatus jobId st p u s) =
        Some (if id_job a = jobId then updated_job a st p u else a)) \<and>
   (activeJob s = None \<longrightarrow> activeJob (updateJobStatus jobId st p u s) = None) \<and>
   extractionSteps (updateJobStatus jobId st p u s) = extractionSteps s"
  by (simp add: updateJobStatus_def)

theorem updateJobStatus_frame_witness:
  "jobs (updateJobStatus ''2'' Failed 100 no_updates
      (initial_state\<lparr>activeJob := Some (initial_jobs ! 0)\<rparr>)) ! 0 = initial_jobs ! 0 \<and>
   status (jobs (updateJobStatus ''2'' Failed 100 no_updates
      (initial_state\<lparr>activeJob := Some (initial_jobs ! 0)\<rparr>)) ! 1) = Failed \<and>
   activeJob (updateJobStatus ''2'' Failed 100 no_updates
      (initial_state\<lparr>activeJob := Some (initial_jobs ! 0)\<rparr>)) = Some (initial_jobs ! 0) \<and>
   activeJob (updateJobStatus ''2'' Failed 100 no_updates initial_state) = None"
  using updateJobStatus_frame
      [of "''2''" Failed 100 no_updates "initial_state\<lparr>activeJob := Some (initial_jobs ! 0)\<rparr>"]
    updateJobStatus_frame [of "''2''" Failed 100 no_updates initial_state]
  by (simp add: initial_state_def initial_jobs_def updated_job_def spread_updates_def
      no_updates_def overwrite_def overwrite_opt_def)

section \<open>Properties of the chat\<close>

subsection \<open>The messages a question appends\<close>

text \<open>
  Claim C10. A call of \<^verbatim>\<open>handleSendMessage\<close> with content \<^verbatim>\<open>c\<close> leaves the messages that were
  there in place and in order and appends exactly two: first a message of the user with
  content \<^verbatim>\<open>c\<close>, then a message of the bot whose content is what \<^verbatim>\<open>getBotResponse\<close> returns
  for \<^verbatim>\<open>c\<close>.
\<close>

theorem handleSendMessage_appends_two:
  "\<exists>u b. messages (handleSendMessage backend c clk s) = messages s @ [u, b] \<and>
          sender u = User \<and> content u = c \<and>
          sender b = Bot \<and> content b = getBotResponse backend c"
  by (simp add: handleSendMessage_def send_user_message_def send_bot_message_def)

theorem handleSendMessage_appends_two_witness:
  "map content (messages (handleSendMessage backend_down ''Who teaches Mathematics?''
      example_chat_clock \<lparr>messages = [], isTyping = False\<rparr>)) =
     [''Who teaches Mathematics?'', default_reply] \<and>
   map sender (messages (handleSendMessage backend_down ''Who teaches Mathematics?''
      example_chat_clock \<lparr>messages = [], isTyping = False\<rparr>)) = [User, Bot]"
  using handleSendMessage_appends_two
    [of backend_down "''Who teaches Mathematics?''" example_chat_clock
        "\<lparr>messages = [], isTyping = False\<rparr>"]
  by (auto simp: getBotResponse_def backend_down_def)

text \<open>Each of the two updates appends one message to whatever list it finds.\<close>

lemma send_user_message_appends:
  "\<exists>u. messages (send_user_message c clk s) = messages s @ [u] \<and> sender u = User \<and> content u = c"
  by (simp add: send_user_message_def)

lemma send_bot_message_appends:
  "\<exists>b. messages (send_bot_message r clk s) = messages s @ [b] \<and> sender b = Bot \<and> content b = r"
  by (simp add: send_bot_message_def)

subsection \<open>The reply and its display\<close>

lemma default_reply_nonempty: "default_reply \<noteq> []"
  by (simp add: default_reply_def)

text \<open>\<^verbatim>\<open>getBotResponse\<close> returns a string that is not empty, whatever the backend does.\<close>

lemma getBotResponse_nonempty: "getBotResponse backend m \<noteq> []"
  by (simp add: getBotResponse_def default_reply_nonempty
      split: chat_response.splits option.splits)

text \<open>
  A reply that does not start with a brace or a bracket, or that \<^verbatim>\<open>JSON.parse\<close> rejects, is
  shown as it is by a Parent mounted for it: the syntax error is caught.
\<close>

lemma Parent_shows_raw_reply:
  assumes "\<not> (trimmed_startsWith reply (CHR ''{'') \<or> trimmed_startsWith reply (CHR ''['')) \<or>
           JSON_parse reply = None"
  shows "Parent reply = Inr (Element ''div'' [Element ''p'' [Value (Some (JStr reply))]])"
  using assms by (auto simp: Parent_def Parent_effect_def Parent_render_def)

lemma Parent_effect_keeps_state_on_syntax_error:
  "JSON_parse reply = None \<Longrightarrow> trimmed_startsWith reply (CHR ''{'') \<Longrightarrow>
   Parent_effect reply response = response"
  by (simp add: Parent_effect_def)

text \<open>
  A reply that is the JSON text of an object without a \<^verbatim>\<open>content\<close> makes the function of
  Parent throw: it reads \<^verbatim>\<open>structured\<close> of \<^verbatim>\<open>undefined\<close>.
\<close>

lemma Parent_throws_without_content:
  assumes "trimmed_startsWith reply (CHR ''{'')"
    and "JSON_parse reply = Some (JObj kvs)"
    and "map_of kvs ''content'' = None"
  shows "Parent reply = Inl TypeError"
  using assms by (simp add: Parent_def Parent_effect_def Parent_render_def and_then_def)

text \<open>The message the chat starts with has a \<^verbatim>\<open>content\<close>, and Parent renders it.\<close>

lemma initial_message_renders:
  "Parent initial_message_content =
     Inr (Element ''div''
            [Element ''p''
               [Value (Some (JStr (''Hello! '' @ [CHR 0xF0, CHR 0x9F, CHR 0x91, CHR 0x8B] @
                  '' Welcome to the University Assistant. I'm here to help you with admissions, course information, campus services, and more. How can I assist you today?'')))],
             Value (Some (JStr []))])"
  by code_simp

text \<open>
  Claim C2 does not hold of the code. When the request fails, \<^verbatim>\<open>getBotResponse\<close> returns its
  fallback, the JSON text of an object that has an \<^verbatim>\<open>intro_message\<close> and no \<^verbatim>\<open>content\<close>.
  Parent parses it, and its function then reads \<^verbatim>\<open>response.content.structured\<close> of that
  object and throws a TypeError instead of returning a message.
\<close>

theorem fallback_reply_breaks_Parent:
  "getBotResponse backend_down ''Who teaches Mathematics?'' = default_reply \<and>
   JSON_parse default_reply = Some (JObj [(''intro_message'', JStr botResponses_default)]) \<and>
   Parent (getBotResponse backend_down ''Who teaches Mathematics?'') = Inl TypeError"
  by code_simp

section \<open>Properties of the message components\<close>

subsection \<open>One layout for each component\<close>

text \<open>
  For a component of the union that \<^verbatim>\<open>ResponseType\<close> declares, Parent's \<^verbatim>\<open>switch\<close> returns
  the element of its one layout.
\<close>

lemma render_component_of_union:
  "render_component (component_json c) = Inr (layout_element c)"
  by (cases c)
     (simp_all add: render_component_def and_then_def TableLayout_json_def CardsLayout_json_def
        ListLayout_json_def TextLayout_json_def)

text \<open>
  Claim C1, as stated, fails. The union is a declaration of the type checker only: Parent
  takes what \<^verbatim>\<open>JSON.parse\<close> returns without a check. A reply can carry a component with
  two layouts and one whose layout does not match its type; Parent accepts both, renders
  the first as text, leaving its table out, and renders nothing for the second.
\<close>

theorem two_layouts_counterexample:
  "read_prop (Some two_layouts) ''text_layout'' =
     Inr (Some (JObj [(''content'', JStr ''Nobody teaches Mathematics.'')])) \<and>
   read_prop (Some two_layouts) ''table_layout'' = Inr (Some (TableLayout_json no_faculty)) \<and>
   read_prop (Some mismatched_layout) ''component_type'' = Inr (Some (JStr ''table'')) \<and>
   read_prop (Some mismatched_layout) ''table_layout'' = Inr None \<and>
   Parent two_layouts_reply =
     Inr (Element ''div''
            [Element ''p'' [Value (Some (JStr ''Here is what I found.''))],
             Element ''div''
               [Element ''p'' [Value (Some (JStr ''Faculty''))],
                TextComponent_element
                  (Some (JObj [(''content'', JStr ''Nobody teaches Mathematics.'')])),
                Value (Some JNull)],
             Value (Some (JStr []))])"
  by code_simp

text \<open>
  Claim C1, amended. \<^verbatim>\<open>ResponseType\<close> declares one layout field for each component type,
  and nothing enforces the declaration at run time. For every JSON value that reaches it
  as a component, Parent's \<^verbatim>\<open>switch\<close> throws only for \<^verbatim>\<open>null\<close> and otherwise returns either
  nothing or the element of one layout: the layout field that matches the
  \<^verbatim>\<open>component_type\<close> of the value, with the truthy value of that field. Layout fields that
  do not match the type are never rendered.
\<close>

theorem render_component_one_layout:
  "(v \<noteq> JNull \<longrightarrow> (\<exists>n. render_component v = Inr n)) \<and>
   (render_component v = Inr (TableComponent_element l) \<longrightarrow>
      read_prop (Some v) ''component_type'' = Inr (Some (JStr ''table'')) \<and>
      read_prop (Some v) ''table_layout'' = Inr l \<and> truthy l) \<and>
   (render_component v = Inr (CardsComponent_element l) \<longrightarrow>
      read_prop (Some v) ''component_type'' = Inr (Some (JStr ''cards'')) \<and>
      read_prop (Some v) ''cards_layout'' = Inr l \<and> truthy l) \<and>
   (render_component v = Inr (ListComponent_element l) \<longrightarrow>
      read_prop (Some v) ''component_type'' = Inr (Some (JStr ''list'')) \<and>
      read_prop (Some v) ''list_layout'' = Inr l \<and> truthy l) \<and>
   (render_component v = Inr (TextComponent_element l) \<longrightarrow>
      read_prop (Some v) ''component_type'' = Inr (Some (JStr ''text'')) \<and>
      read_prop (Some v) ''text_layout'' = Inr l \<and> truthy l) \<and>
   (\<forall>n. render_component v = Inr n \<longrightarrow>
      n = Value (Some JNull) \<or>
      (\<exists>l. n = TableComponent_element l \<or> n = CardsComponent_element l \<or>
           n = ListComponent_element l \<or> n = TextComponent_element l))"
proof -
  have total: "v \<noteq> JNull \<Longrightarrow> \<exists>x. read_prop (Some v) k = Inr x" for k
    by (cases v) simp_all
  show ?thesis
  proof (cases "v = JNull")
    case True
    then show ?thesis by (simp add: render_component_def and_then_def)
  next
    case False
    obtain t where t: "read_prop (Some v) ''component_type'' = Inr t"
      using total [OF False] by blast
    obtain a where a: "read_prop (Some v) ''table_layout'' = Inr a"
      using total [OF False] by blast
    obtain b where b: "read_prop (Some v) ''cards_layout'' = Inr b"
      using total [OF False] by blast
    obtain c where c: "read_prop (Some v) ''list_layout'' = Inr c"
      using total [OF False] by blast
    obtain d where d: "read_prop (Some v) ''text_layout'' = Inr d"
      using total [OF False] by blast
    show ?thesis
      using False by (auto simp add: render_component_def and_then_def t a b c d)
  qed
qed

theorem render_component_one_layout_witness:
  "render_component two_layouts =
     Inr (TextComponent_element
            (Some (JObj [(''content'', JStr ''Nobody teaches Mathematics.'')]))) \<and>
   read_prop (Some two_layouts) ''component_type'' = Inr (Some (JStr ''text'')) \<and>
   render_component mismatched_layout = Inr (Value (Some JNull)) \<and>
   render_component (component_json (TableVariant no_faculty)) =
     Inr (TableComponent_element (Some (TableLayout_json no_faculty)))"
  using render_component_one_layout
    [of two_layouts "Some (JObj [(''content'', JStr ''Nobody teaches Mathematics.'')])"]
  by (simp add: render_component_def and_then_def two_layouts_def mismatched_layout_def
      TableLayout_json_def)

subsection \<open>The cells of a table\<close>

lemma valid_child_cell_value: "valid_child (cell_value c)"
  by (cases c) simp_all

lemma row_at_plain:
  "k \<in> fst ` set row \<or> k \<notin> set Object_prototype_names \<Longrightarrow>
   row_at row k = Value (map_option cell_value (map_of row k))"
proof (cases "map_of row k")
  case None
  assume "k \<in> fst ` set row \<or> k \<notin> set Object_prototype_names"
  moreover from None have "k \<notin> fst ` set row"
    by (simp add: map_of_eq_None_iff)
  ultimately have "k \<notin> set Object_prototype_names"
    by simp
  with None show ?thesis
    by (simp add: row_at_def Object_prototype_names_def)
next
  case (Some c)
  then show ?thesis by (simp add: row_at_def)
qed

text \<open>
  Claim C8, as stated, fails. For a column whose key is the name of a property that every
  object inherits, a row without a property of its own under that name does not give its
  own value: for \<^verbatim>\<open>constructor\<close> the cell holds a function, which React leaves out, and for
  \<^verbatim>\<open>__proto__\<close> it holds \<^verbatim>\<open>Object.prototype\<close>, an object, on which React throws.
\<close>

theorem inherited_keys_counterexample:
  "TableComponent inherited_keys =
     Element ''div'' [Element ''table''
       [Element ''thead'' [Element ''tr'' [Element ''th'' [Value (Some (JStr ''Name''))],
                                          Element ''th'' [Value (Some (JStr ''Constructor''))],
                                          Element ''th'' [Value (Some (JStr ''Prototype''))]]],
        Element ''tbody'' [Element ''tr'' [Element ''td'' [Value (Some (JStr ''A. Turing''))],
                                          Element ''td'' [FunctionValue ''constructor''],
                                          Element ''td'' [ObjectPrototypeValue]]]]] \<and>
   \<not> renderable (TableComponent inherited_keys)"
  by (simp add: TableComponent_def inherited_keys_def row_at_def Object_prototype_methods_def)

text \<open>
  Claim C8, amended. For every table layout in which each column key is a property of the
  row itself or is not a name of \<^verbatim>\<open>Object.prototype\<close>, \<^verbatim>\<open>TableComponent\<close> returns a table
  that React renders without an error; its header row has one cell for each column, in
  order, showing the label of the column, and its body has one row for each row of the
  layout, in order, each with one cell for each column that holds the row's own value at
  the key of the column, or nothing when the row has none. A layout without rows gives
  the table with its header and an empty body.
\<close>

theorem TableComponent_cells_plain:
  assumes "plain_keys layout"
  shows "\<exists>ths trs.
     TableComponent layout =
       Element ''div'' [Element ''table'' [Element ''thead'' [Element ''tr'' ths],
                                          Element ''tbody'' trs]] \<and>
     length ths = length (columns layout) \<and>
     (\<forall>i < length (columns layout).
        ths ! i = Element ''th'' [Value (Some (JStr (label (columns layout ! i))))]) \<and>
     length trs = length (rows layout) \<and>
     (\<forall>j < length (rows layout). \<exists>tds.
        trs ! j = Element ''tr'' tds \<and> length tds = length (columns layout) \<and>
        (\<forall>i < length (columns layout).
           tds ! i =
             Element ''td''
               [Value (map_option cell_value
                         (map_of (rows layout ! j) (key (columns layout ! i))))])) \<and>
     (rows layout = [] \<longrightarrow> trs = []) \<and>
     renderable (TableComponent layout)"
proof -
  have cell: "row_at (rows layout ! j) (key (columns layout ! i)) =
              Value (map_option cell_value (map_of (rows layout ! j) (key (columns layout ! i))))"
    if "j < length (rows layout)" "i < length (columns layout)" for i j
    using assms that by (intro row_at_plain) (auto simp: plain_keys_def)
  have cell': "renderable (row_at row (key col))"
    if "row \<in> set (rows layout)" "col \<in> set (columns layout)" for row col
  proof -
    have "row_at row (key col) = Value (map_option cell_value (map_of row (key col)))"
      using assms that by (intro row_at_plain) (auto simp: plain_keys_def)
    then show ?thesis
      by (cases "map_of row (key col)") (simp_all add: valid_child_cell_value)
  qed
  show ?thesis
    by (simp add: TableComponent_def cell cell')
qed

theorem TableComponent_cells_plain_witness:
  "plain_keys no_faculty \<and> plain_keys one_faculty \<and>
   TableComponent no_faculty =
     Element ''div'' [Element ''table''
       [Element ''thead'' [Element ''tr'' [Element ''th'' [Value (Some (JStr ''Name''))],
                                          Element ''th'' [Value (Some (JStr ''Course''))]]],
        Element ''tbody'' []]] \<and>
   TableComponent one_faculty =
     Element ''div'' [Element ''table''
       [Element ''thead'' [Element ''tr'' [Element ''th'' [Value (Some (JStr ''Name''))],
                                          Element ''th'' [Value (Some (JStr ''Course''))]]],
        Element ''tbody'' [Element ''tr'' [Element ''td'' [Value (Some (JStr ''A. Turing''))],
                                          Element ''td'' [Value (Some (JStr ''Mathematics''))]]]]] \<and>
   renderable (TableComponent one_faculty)"
proof -
  have h0: "plain_keys no_faculty"
    by (simp add: plain_keys_def no_faculty_def)
  have h1: "plain_keys one_faculty"
    by (simp add: plain_keys_def one_faculty_def faculty_columns_def Object_prototype_names_def
        Object_prototype_methods_def)
  show ?thesis
    using h0 h1 TableComponent_cells_plain [OF h0] TableComponent_cells_plain [OF h1]
    by (simp add: TableComponent_def no_faculty_def one_faculty_def faculty_columns_def
        row_at_def)
qed

end
